theory Spec2Isabelle
  imports Main "HOL-Library.AList"
begin

section \<open>Values handled by the call adapter\<close>

text \<open>
  The adapter of \<^verbatim>\<open>fugue/dataframe/function_wrapper.py\<close> moves Python objects between a
  caller and a wrapped function. The objects that matter are the abstract tabular-dataset
  handle (fugue's \<^verbatim>\<open>DataFrame\<close>) and the concrete shapes a handler converts it to.
  A cell is one value of a row; a schema is an ordered list of column names with their
  type names. \<open>PyObject\<close> is any other object, known by a label.
\<close>

datatype cell = CNone | CInt int | CStr string

type_synonym row = "cell list"
type_synonym dictrow = "(string \<times> cell) list"
type_synonym schema = "(string \<times> string) list"

text \<open>
  Modelled from the spec: the abstract tabular-dataset handle, whose class
  (\<^verbatim>\<open>fugue.dataframe.dataframe.DataFrame\<close>) is not part of the shown sources. The spec
  gives its capabilities: \<^verbatim>\<open>schema\<close>, \<^verbatim>\<open>is_bounded\<close>, \<^verbatim>\<open>count()\<close>,
  \<^verbatim>\<open>as_array_iterable\<close>, \<^verbatim>\<open>as_dict_iterable\<close>, \<^verbatim>\<open>as_pandas()\<close>, \<^verbatim>\<open>as_arrow()\<close>.
  \<open>native\<close> is \<open>Some bs\<close> for a \<^verbatim>\<open>LocalDataFrameIterableDataFrame\<close>, whose native
  form is a sequence of local sub-frames (each given by its rows), and \<open>None\<close> for every
  other handle.
\<close>

record dataframe =
  schema :: schema
  rows :: "row list"
  is_bounded :: bool
  is_local :: bool
  native :: "row list list option"

text \<open>A realized columnar frame (pandas) and a realized columnar table (Arrow).\<close>

datatype pandas = PdFrame schema "row list"
datatype arrow = PaTable schema "row list"

datatype pyval =
    PyNone
  | PyInt int
  | PyStr string
  | PyDataFrame dataframe
  | PyListList "row list"
  | PyIterableList "row list"
  | PyEmptyAwareIterableList "row list"
  | PyListDict "dictrow list"
  | PyIterableDict "dictrow list"
  | PyEmptyAwareIterableDict "dictrow list"
  | PyPandas pandas
  | PyIterablePandas "pandas list"
  | PyArrowTable arrow
  | PyIterableArrow "arrow list"
  | PyObject string

type_synonym dict = "(string \<times> pyval) list"

section \<open>Errors\<close>

text \<open>
  An exception is its class and what its message is built from. \<open>ForeignError\<close> stands
  for a failure inside the dataset library.
\<close>

datatype exn_class =
    TypeError | ValueError | AssertionError | AttributeError | IndexError | KeyError
  | ForeignError

datatype message =
    NotADataFrame pyval
  | RequiredNotGiven string
  | NotAcceptable dict
  | MustBeRequired
  | OutputSchemaMismatch schema schema
  | NoAttribute string
  | IndexOutOfRange nat
  | NotOfAnnotatedType
  | SchemaRequired
  | MissingKey string
  | DifferentParentWorkflows
  | NotAWorkflowDataFrame string
  | CantInferWorkflow

datatype error = Exn exn_class message

fun exn_class_of :: "error \<Rightarrow> exn_class" where
  "exn_class_of (Exn c m) = c"

fun message_of :: "error \<Rightarrow> message" where
  "message_of (Exn c m) = m"

text \<open>
  \<^verbatim>\<open>triad.assert_or_throw(cond, exc)\<close>: nothing happens when the condition holds; otherwise
  the given exception is raised, and a message that is a plain string is raised as an
  \<^verbatim>\<open>AssertionError\<close>.
\<close>

definition assert_or_throw :: "bool \<Rightarrow> error \<Rightarrow> error + unit" where
  "assert_or_throw cond e = (if cond then Inr () else Inl e)"

section \<open>Capabilities of the dataset handle\<close>

definition df_count :: "dataframe \<Rightarrow> nat" where
  "df_count df = length (rows df)"

definition as_array :: "dataframe \<Rightarrow> row list" where
  "as_array df = rows df"

definition as_array_iterable :: "dataframe \<Rightarrow> row list" where
  "as_array_iterable df = rows df"

definition as_dict_iterable :: "dataframe \<Rightarrow> dictrow list" where
  "as_dict_iterable df = map (\<lambda>r. zip (map fst (schema df)) r) (rows df)"

definition as_pandas :: "dataframe \<Rightarrow> pandas" where
  "as_pandas df = PdFrame (schema df) (rows df)"

definition as_arrow :: "dataframe \<Rightarrow> arrow" where
  "as_arrow df = PaTable (schema df) (rows df)"

definition to_local_df :: "dataframe \<Rightarrow> dataframe" where
  "to_local_df df = df\<lparr>is_local := True\<rparr>"

text \<open>
  Modelled from the spec: the constructors of realized datasets (\<^verbatim>\<open>ArrayDataFrame\<close>,
  \<^verbatim>\<open>IterableDataFrame\<close>, \<^verbatim>\<open>PandasDataFrame\<close>, \<^verbatim>\<open>ArrowDataFrame\<close>,
  \<^verbatim>\<open>LocalDataFrameIterableDataFrame\<close>), which are not part of the shown sources: given
  a concrete representation and a schema they produce a new handle wrapping it. A shape
  with no intrinsic schema needs the schema; a frame or a table carries one of its own.
\<close>

definition ArrayDataFrame :: "row list \<Rightarrow> schema option \<Rightarrow> error + dataframe" where
  "ArrayDataFrame rs sch =
     (case sch of
        None \<Rightarrow> Inl (Exn ForeignError SchemaRequired)
      | Some s \<Rightarrow> Inr \<lparr>schema = s, rows = rs, is_bounded = True, is_local = True, native = None\<rparr>)"

definition IterableDataFrame :: "row list \<Rightarrow> schema option \<Rightarrow> error + dataframe" where
  "IterableDataFrame rs sch =
     (case sch of
        None \<Rightarrow> Inl (Exn ForeignError SchemaRequired)
      | Some s \<Rightarrow> Inr \<lparr>schema = s, rows = rs, is_bounded = False, is_local = True, native = None\<rparr>)"

fun PandasDataFrame :: "pandas \<Rightarrow> schema option \<Rightarrow> dataframe" where
  "PandasDataFrame (PdFrame s0 rs) sch =
     \<lparr>schema = (case sch of None \<Rightarrow> s0 | Some s \<Rightarrow> s), rows = rs,
      is_bounded = True, is_local = True, native = None\<rparr>"

fun ArrowDataFrame :: "arrow \<Rightarrow> schema option \<Rightarrow> dataframe" where
  "ArrowDataFrame (PaTable s0 rs) sch =
     \<lparr>schema = (case sch of None \<Rightarrow> s0 | Some s \<Rightarrow> s), rows = rs,
      is_bounded = True, is_local = True, native = None\<rparr>"

definition LocalDataFrameIterableDataFrame :: "dataframe list \<Rightarrow> dataframe" where
  "LocalDataFrameIterableDataFrame dfs =
     \<lparr>schema = (case dfs of [] \<Rightarrow> [] | d # _ \<Rightarrow> schema d), rows = concat (map rows dfs),
      is_bounded = False, is_local = True, native = Some (map rows dfs)\<rparr>"

text \<open>
  What the frame and table libraries offer on their objects: \<^verbatim>\<open>shape[0]\<close> is the number
  of rows of a pandas frame and of an Arrow table. An Arrow table has \<^verbatim>\<open>num_rows\<close> and
  \<^verbatim>\<open>shape\<close> and no method \<^verbatim>\<open>count\<close>, so \<^verbatim>\<open>table.count()\<close> raises
  \<^verbatim>\<open>AttributeError\<close>.
\<close>

fun pandas_shape0 :: "pandas \<Rightarrow> nat" where
  "pandas_shape0 (PdFrame s rs) = length rs"

fun arrow_shape0 :: "arrow \<Rightarrow> nat" where
  "arrow_shape0 (PaTable s rs) = length rs"

fun arrow_count :: "arrow \<Rightarrow> error + nat" where
  "arrow_count (PaTable s rs) = Inl (Exn AttributeError (NoAttribute ''count''))"

section \<open>The tabular handler family\<close>

text \<open>
  One constructor for each class below \<^verbatim>\<open>_DataFrameParamBase\<close>. A method that a class
  does not define is the one of its parent: \<^verbatim>\<open>LocalDataFrameParam\<close> for
  \<^verbatim>\<open>_LocalNoSchemaDataFrameParam\<close>, the frame and table handlers;
  \<^verbatim>\<open>_LocalNoSchemaDataFrameParam\<close> for the row-list and row-dict handlers.
\<close>

datatype handler =
    DataFrameParam
  | LocalDataFrameParam
  | LocalNoSchemaDataFrameParam
  | ListListParam
  | IterableListParam
  | EmptyAwareIterableListParam
  | ListDictParam
  | IterableDictParam
  | EmptyAwareIterableDictParam
  | PandasParam
  | IterablePandasParam
  | PyArrowTableParam
  | IterableArrowParam

fun need_schema :: "handler \<Rightarrow> bool" where
  "need_schema DataFrameParam = False"
| "need_schema LocalDataFrameParam = False"
| "need_schema PandasParam = False"
| "need_schema IterablePandasParam = False"
| "need_schema PyArrowTableParam = False"
| "need_schema IterableArrowParam = False"
| "need_schema _ = True"

fun format_hint :: "handler \<Rightarrow> string option" where
  "format_hint PandasParam = Some ''pandas''"
| "format_hint IterablePandasParam = Some ''pandas''"
| "format_hint PyArrowTableParam = Some ''pyarrow''"
| "format_hint IterableArrowParam = Some ''pyarrow''"
| "format_hint _ = None"

text \<open>
  \<^verbatim>\<open>to_input_data(df, ctx)\<close>. The two batch handlers yield one frame or table for an
  ordinary handle and one for each native sub-frame of a
  \<^verbatim>\<open>LocalDataFrameIterableDataFrame\<close>.
\<close>

fun to_input_data :: "handler \<Rightarrow> dataframe \<Rightarrow> pyval \<Rightarrow> pyval" where
  "to_input_data DataFrameParam df ctx = PyDataFrame df"
| "to_input_data LocalDataFrameParam df ctx = PyDataFrame (to_local_df df)"
| "to_input_data LocalNoSchemaDataFrameParam df ctx = PyDataFrame (to_local_df df)"
| "to_input_data ListListParam df ctx = PyListList (as_array df)"
| "to_input_data IterableListParam df ctx = PyIterableList (as_array_iterable df)"
| "to_input_data EmptyAwareIterableListParam df ctx =
     PyEmptyAwareIterableList (as_array_iterable df)"
| "to_input_data ListDictParam df ctx = PyListDict (as_dict_iterable (to_local_df df))"
| "to_input_data IterableDictParam df ctx = PyIterableDict (as_dict_iterable df)"
| "to_input_data EmptyAwareIterableDictParam df ctx =
     PyEmptyAwareIterableDict (as_dict_iterable df)"
| "to_input_data PandasParam df ctx = PyPandas (as_pandas df)"
| "to_input_data IterablePandasParam df ctx =
     (case native df of
        None \<Rightarrow> PyIterablePandas [as_pandas df]
      | Some subs \<Rightarrow> PyIterablePandas (map (\<lambda>rs. as_pandas (df\<lparr>rows := rs\<rparr>)) subs))"
| "to_input_data PyArrowTableParam df ctx = PyArrowTable (as_arrow df)"
| "to_input_data IterableArrowParam df ctx =
     (case native df of
        None \<Rightarrow> PyIterableArrow [as_arrow df]
      | Some subs \<Rightarrow> PyIterableArrow (map (\<lambda>rs. as_arrow (df\<lparr>rows := rs\<rparr>)) subs))"

text \<open>
  \<^verbatim>\<open>count(df)\<close>, first for a value of the type the method is annotated with. The
  generator expression \<^verbatim>\<open>sum(1 for _ in df)\<close> adds one for each element.
\<close>

definition DataFrameParam_count :: "dataframe \<Rightarrow> nat" where
  "DataFrameParam_count df =
     (if is_bounded df then df_count df
      else sum_list (map (\<lambda>_. 1) (as_array_iterable df)))"

definition ListListParam_count :: "row list \<Rightarrow> nat" where
  "ListListParam_count df = length df"

definition IterableListParam_count :: "row list \<Rightarrow> nat" where
  "IterableListParam_count df = sum_list (map (\<lambda>_. 1) df)"

definition ListDictParam_count :: "dictrow list \<Rightarrow> nat" where
  "ListDictParam_count df = length df"

definition IterableDictParam_count :: "dictrow list \<Rightarrow> nat" where
  "IterableDictParam_count df = sum_list (map (\<lambda>_. 1) df)"

definition PandasParam_count :: "pandas \<Rightarrow> nat" where
  "PandasParam_count df = pandas_shape0 df"

definition IterablePandasParam_count :: "pandas list \<Rightarrow> nat" where
  "IterablePandasParam_count df = sum_list (map pandas_shape0 df)"

definition PyArrowTableParam_count :: "arrow \<Rightarrow> error + nat" where
  "PyArrowTableParam_count df = arrow_count df"

definition IterableArrowParam_count :: "arrow list \<Rightarrow> nat" where
  "IterableArrowParam_count df = sum_list (map arrow_shape0 df)"

text \<open>
  What the source leaves to the objects it is handed. The methods of a handler check
  nothing: on a value outside the type a method is annotated with, what \<^verbatim>\<open>len\<close>,
  iteration, the reading of an attribute or a constructor of the dataset library does
  depends on the object, and the call may return as well as raise. These outcomes are
  parameters of the model:
  \<^item> \<open>count_other h v\<close> is the outcome of \<^verbatim>\<open>count\<close> of the handler \<open>h\<close> on a value \<open>v\<close>
    outside its type, the object returned or the exception raised;
  \<^item> \<open>output_other h v sch\<close> is the outcome of \<^verbatim>\<open>to_output_df\<close> there;
  \<^item> \<open>align_columns adf s\<close> is \<^verbatim>\<open>adf[s.names].alter_columns(s)\<close>, the column selection
    and type alteration of the dataset abstraction, which is not part of the shown
    sources.
\<close>

record runtime =
  count_other :: "handler \<Rightarrow> pyval \<Rightarrow> error + pyval"
  output_other :: "handler \<Rightarrow> pyval \<Rightarrow> schema option \<Rightarrow> error + pyval"
  align_columns :: "dataframe \<Rightarrow> schema \<Rightarrow> error + dataframe"

text \<open>
  The method as the wrapper calls it, on whatever the wrapped function returned: the
  number of rows, as a Python integer, for a value of the annotated type.
\<close>

definition counted :: "nat \<Rightarrow> error + pyval" where
  "counted n = Inr (PyInt (int n))"

fun count :: "runtime \<Rightarrow> handler \<Rightarrow> pyval \<Rightarrow> error + pyval" where
  "count rtm DataFrameParam v =
     (case v of PyDataFrame df \<Rightarrow> counted (DataFrameParam_count df)
      | _ \<Rightarrow> count_other rtm DataFrameParam v)"
| "count rtm LocalDataFrameParam v =
     (case v of PyDataFrame df \<Rightarrow> counted (DataFrameParam_count df)
      | _ \<Rightarrow> count_other rtm LocalDataFrameParam v)"
| "count rtm LocalNoSchemaDataFrameParam v =
     (case v of PyDataFrame df \<Rightarrow> counted (DataFrameParam_count df)
      | _ \<Rightarrow> count_other rtm LocalNoSchemaDataFrameParam v)"
| "count rtm ListListParam v =
     (case v of PyListList df \<Rightarrow> counted (ListListParam_count df)
      | _ \<Rightarrow> count_other rtm ListListParam v)"
| "count rtm IterableListParam v =
     (case v of PyIterableList df \<Rightarrow> counted (IterableListParam_count df)
      | _ \<Rightarrow> count_other rtm IterableListParam v)"
| "count rtm EmptyAwareIterableListParam v =
     (case v of PyEmptyAwareIterableList df \<Rightarrow> counted (IterableListParam_count df)
      | _ \<Rightarrow> count_other rtm EmptyAwareIterableListParam v)"
| "count rtm ListDictParam v =
     (case v of PyListDict df \<Rightarrow> counted (ListDictParam_count df)
      | _ \<Rightarrow> count_other rtm ListDictParam v)"
| "count rtm IterableDictParam v =
     (case v of PyIterableDict df \<Rightarrow> counted (IterableDictParam_count df)
      | _ \<Rightarrow> count_other rtm IterableDictParam v)"
| "count rtm EmptyAwareIterableDictParam v =
     (case v of PyEmptyAwareIterableDict df \<Rightarrow> counted (IterableDictParam_count df)
      | _ \<Rightarrow> count_other rtm EmptyAwareIterableDictParam v)"
| "count rtm PandasParam v =
     (case v of PyPandas df \<Rightarrow> counted (PandasParam_count df)
      | _ \<Rightarrow> count_other rtm PandasParam v)"
| "count rtm IterablePandasParam v =
     (case v of PyIterablePandas df \<Rightarrow> counted (IterablePandasParam_count df)
      | _ \<Rightarrow> count_other rtm IterablePandasParam v)"
| "count rtm PyArrowTableParam v =
     (case v of PyArrowTable df \<Rightarrow> (case PyArrowTableParam_count df of Inl e \<Rightarrow> Inl e | Inr n \<Rightarrow> counted n)
      | _ \<Rightarrow> count_other rtm PyArrowTableParam v)"
| "count rtm IterableArrowParam v =
     (case v of PyIterableArrow df \<Rightarrow> counted (IterableArrowParam_count df)
      | _ \<Rightarrow> count_other rtm IterableArrowParam v)"

text \<open>
  \<^verbatim>\<open>to_output_df(output, schema, ctx)\<close>. The handlers of the abstract handle check the
  declared schema against the produced one and return the produced handle; the check
  reads \<^verbatim>\<open>output.schema\<close> only when a schema is declared. The handler of the realized
  Arrow table asserts that it is given a table. A generator of the source runs when its
  result is iterated; the model, which holds the rows of a handle as a list, runs it
  when the handle is built, so that an exception of the generator is an exception of the
  conversion.
\<close>

definition DataFrameParam_to_output_df ::
    "dataframe \<Rightarrow> schema option \<Rightarrow> pyval \<Rightarrow> error + dataframe" where
  "DataFrameParam_to_output_df output sch ctx =
     (case assert_or_throw (sch = None \<or> Some (schema output) = sch)
        (Exn AssertionError (OutputSchemaMismatch (schema output) (the sch))) of
        Inl e \<Rightarrow> Inl e
      | Inr _ \<Rightarrow> Inr output)"

text \<open>
  The row-dict handlers project each mapping onto the schema's column names:
  \<^verbatim>\<open>[row[x] for x in schema.names]\<close>, where \<^verbatim>\<open>row[x]\<close> raises \<^verbatim>\<open>KeyError\<close> for a
  name the mapping does not have.
\<close>

fun project_row :: "dictrow \<Rightarrow> string list \<Rightarrow> error + row" where
  "project_row r [] = Inr []"
| "project_row r (x # xs) =
     (case map_of r x of
        None \<Rightarrow> Inl (Exn KeyError (MissingKey x))
      | Some c \<Rightarrow>
          (case project_row r xs of
             Inl e \<Rightarrow> Inl e
           | Inr cs \<Rightarrow> Inr (c # cs)))"

fun get_all :: "dictrow list \<Rightarrow> schema \<Rightarrow> error + row list" where
  "get_all [] s = Inr []"
| "get_all (r # output) s =
     (case project_row r (map fst s) of
        Inl e \<Rightarrow> Inl e
      | Inr cs \<Rightarrow>
          (case get_all output s of
             Inl e \<Rightarrow> Inl e
           | Inr rs \<Rightarrow> Inr (cs # rs)))"

definition DictParam_to_output_df :: "dictrow list \<Rightarrow> schema option \<Rightarrow> error + dataframe" where
  "DictParam_to_output_df output sch =
     (case sch of
        None \<Rightarrow> Inl (Exn ForeignError SchemaRequired)
      | Some s \<Rightarrow>
          (case get_all output s of
             Inl e \<Rightarrow> Inl e
           | Inr rs \<Rightarrow> IterableDataFrame rs (Some s)))"

text \<open>
  The generator \<^verbatim>\<open>dfs\<close> of the Arrow batch handler: each table is wrapped with its own
  schema and, when a schema is declared and differs from it, aligned to the declared one.
\<close>

definition align :: "runtime \<Rightarrow> arrow \<Rightarrow> schema option \<Rightarrow> error + dataframe" where
  "align rtm t sch =
     (let adf = ArrowDataFrame t None in
      case sch of
        None \<Rightarrow> Inr adf
      | Some s \<Rightarrow> (if \<not> (schema adf = s) then align_columns rtm adf s else Inr adf))"

fun IterableArrowParam_dfs ::
    "runtime \<Rightarrow> arrow list \<Rightarrow> schema option \<Rightarrow> error + dataframe list" where
  "IterableArrowParam_dfs rtm [] sch = Inr []"
| "IterableArrowParam_dfs rtm (t # ts) sch =
     (case align rtm t sch of
        Inl e \<Rightarrow> Inl e
      | Inr adf \<Rightarrow>
          (case IterableArrowParam_dfs rtm ts sch of
             Inl e \<Rightarrow> Inl e
           | Inr adfs \<Rightarrow> Inr (adf # adfs)))"

definition lift_df :: "error + dataframe \<Rightarrow> error + pyval" where
  "lift_df r = (case r of Inl e \<Rightarrow> Inl e | Inr df \<Rightarrow> Inr (PyDataFrame df))"

definition handle_to_output_df ::
    "runtime \<Rightarrow> handler \<Rightarrow> pyval \<Rightarrow> schema option \<Rightarrow> pyval \<Rightarrow> error + pyval" where
  "handle_to_output_df rtm h v sch ctx =
     (case v of
        PyDataFrame df \<Rightarrow> lift_df (DataFrameParam_to_output_df df sch ctx)
      | _ \<Rightarrow> (if sch = None then Inr v else output_other rtm h v sch))"

fun to_output_df ::
    "runtime \<Rightarrow> handler \<Rightarrow> pyval \<Rightarrow> schema option \<Rightarrow> pyval \<Rightarrow> error + pyval" where
  "to_output_df rtm DataFrameParam v sch ctx = handle_to_output_df rtm DataFrameParam v sch ctx"
| "to_output_df rtm LocalDataFrameParam v sch ctx =
     handle_to_output_df rtm LocalDataFrameParam v sch ctx"
| "to_output_df rtm LocalNoSchemaDataFrameParam v sch ctx =
     handle_to_output_df rtm LocalNoSchemaDataFrameParam v sch ctx"
| "to_output_df rtm ListListParam v sch ctx =
     (case v of PyListList rs \<Rightarrow> lift_df (ArrayDataFrame rs sch)
      | _ \<Rightarrow> output_other rtm ListListParam v sch)"
| "to_output_df rtm IterableListParam v sch ctx =
     (case v of PyIterableList rs \<Rightarrow> lift_df (IterableDataFrame rs sch)
      | _ \<Rightarrow> output_other rtm IterableListParam v sch)"
| "to_output_df rtm EmptyAwareIterableListParam v sch ctx =
     (case v of PyEmptyAwareIterableList rs \<Rightarrow> lift_df (IterableDataFrame rs sch)
      | _ \<Rightarrow> output_other rtm EmptyAwareIterableListParam v sch)"
| "to_output_df rtm ListDictParam v sch ctx =
     (case v of PyListDict ds \<Rightarrow> lift_df (DictParam_to_output_df ds sch)
      | _ \<Rightarrow> output_other rtm ListDictParam v sch)"
| "to_output_df rtm IterableDictParam v sch ctx =
     (case v of PyIterableDict ds \<Rightarrow> lift_df (DictParam_to_output_df ds sch)
      | _ \<Rightarrow> output_other rtm IterableDictParam v sch)"
| "to_output_df rtm EmptyAwareIterableDictParam v sch ctx =
     (case v of PyEmptyAwareIterableDict ds \<Rightarrow> lift_df (DictParam_to_output_df ds sch)
      | _ \<Rightarrow> output_other rtm EmptyAwareIterableDictParam v sch)"
| "to_output_df rtm PandasParam v sch ctx =
     (case v of PyPandas pdf \<Rightarrow> Inr (PyDataFrame (PandasDataFrame pdf sch))
      | _ \<Rightarrow> output_other rtm PandasParam v sch)"
| "to_output_df rtm IterablePandasParam v sch ctx =
     (case v of
        PyIterablePandas pdfs \<Rightarrow>
          Inr (PyDataFrame (LocalDataFrameIterableDataFrame
                 (map (\<lambda>pdf. PandasDataFrame pdf sch) pdfs)))
      | _ \<Rightarrow> output_other rtm IterablePandasParam v sch)"
| "to_output_df rtm PyArrowTableParam v sch ctx =
     (case v of PyArrowTable t \<Rightarrow> Inr (PyDataFrame (ArrowDataFrame t sch))
      | _ \<Rightarrow> Inl (Exn AssertionError NotOfAnnotatedType))"
| "to_output_df rtm IterableArrowParam v sch ctx =
     (case v of
        PyIterableArrow ts \<Rightarrow>
          (case IterableArrowParam_dfs rtm ts sch of
             Inl e \<Rightarrow> Inl e
           | Inr adfs \<Rightarrow> Inr (PyDataFrame (LocalDataFrameIterableDataFrame adfs)))
      | _ \<Rightarrow> output_other rtm IterableArrowParam v sch)"

section \<open>Resolved parameters and the wrapper\<close>

text \<open>
  A resolved parameter is an instance of a subclass of \<^verbatim>\<open>AnnotatedParam\<close>: the marker
  of \<^verbatim>\<open>*args\<close>, the marker of \<^verbatim>\<open>**kwargs\<close>, a tabular handler, or any other
  annotated parameter. Every instance has the attribute \<^verbatim>\<open>required\<close>.
\<close>

datatype param_class = PositionalParam | KeywordParam | Tabular handler | OtherParam

record param =
  cls :: param_class
  required :: bool

text \<open>
  Modelled from the spec: \<^verbatim>\<open>AnnotatedParam.__init__\<close> of
  \<^verbatim>\<open>fugue/collections/function_wrapper.py\<close>, which is not part of the shown sources.
  It is given the declared parameter (\<open>None\<close> for a return annotation) and sets the
  requiredness flag: a declared parameter is required when it has no default value, and
  a return annotation counts as required.
\<close>

record inspect_parameter =
  name :: string
  has_default :: bool

definition AnnotatedParam_init :: "param_class \<Rightarrow> inspect_parameter option \<Rightarrow> param" where
  "AnnotatedParam_init c ip =
     \<lparr>cls = c, required = (case ip of None \<Rightarrow> True | Some q \<Rightarrow> \<not> has_default q)\<rparr>"

text \<open>
  \<^verbatim>\<open>_DataFrameParamBase.__init__\<close>, inherited unchanged by every handler class: the
  parent's constructor, then the assertion that the parameter is required.
\<close>

definition DataFrameParamBase_init :: "handler \<Rightarrow> inspect_parameter option \<Rightarrow> error + param" where
  "DataFrameParamBase_init h ip =
     (let self = AnnotatedParam_init (Tabular h) ip in
      case assert_or_throw (required self) (Exn TypeError MustBeRequired) of
        Inl e \<Rightarrow> Inl e
      | Inr _ \<Rightarrow> Inr self)"

text \<open>
  The wrapper holds the ordered mapping from parameter names to resolved parameters
  (\<^verbatim>\<open>self._params\<close>), the resolved return annotation (\<^verbatim>\<open>self._rt\<close>) and the wrapped
  function (\<^verbatim>\<open>self._func\<close>), which is called with keyword arguments only and may raise.
\<close>

record wrapper =
  params :: "(string \<times> param) list"
  rt :: param
  func :: "dict \<Rightarrow> error + pyval"

text \<open>
  \<^verbatim>\<open>get_key_by_index\<close> and \<^verbatim>\<open>get_value_by_index\<close> of the indexed ordered dictionary
  read a list by position; Python raises \<^verbatim>\<open>IndexError\<close> past the end.
\<close>

definition get_key_by_index :: "(string \<times> 'a) list \<Rightarrow> nat \<Rightarrow> error + string" where
  "get_key_by_index ps i =
     (if i < length ps then Inr (fst (ps ! i)) else Inl (Exn IndexError (IndexOutOfRange i)))"

definition get_value_by_index :: "(string \<times> 'a) list \<Rightarrow> nat \<Rightarrow> error + 'a" where
  "get_value_by_index ps i =
     (if i < length ps then Inr (snd (ps ! i)) else Inl (Exn IndexError (IndexOutOfRange i)))"

subsection \<open>\<^verbatim>\<open>get_format_hint\<close>\<close>

fun first_param_hint :: "(string \<times> param) list \<Rightarrow> string option" where
  "first_param_hint [] = None"
| "first_param_hint ((k, v) # ps) =
     (case cls v of
        Tabular h \<Rightarrow> (if format_hint h \<noteq> None then format_hint h else first_param_hint ps)
      | _ \<Rightarrow> first_param_hint ps)"

definition get_format_hint :: "wrapper \<Rightarrow> string option" where
  "get_format_hint w =
     (case first_param_hint (params w) of
        Some hint \<Rightarrow> Some hint
      | None \<Rightarrow> (case cls (rt w) of Tabular h \<Rightarrow> format_hint h | _ \<Rightarrow> None))"

definition need_output_schema :: "wrapper \<Rightarrow> bool" where
  "need_output_schema w = (case cls (rt w) of Tabular h \<Rightarrow> need_schema h | _ \<Rightarrow> False)"

subsection \<open>\<^verbatim>\<open>run\<close>\<close>

text \<open>
  A Python dictionary is an association list with distinct keys in insertion order:
  assigning to a present key replaces its value in place, assigning to a new key appends.
\<close>

definition dict_update :: "dict \<Rightarrow> dict \<Rightarrow> dict" where
  "dict_update p kw = foldl (\<lambda>d (k, v). AList.update k v d) p kw"

text \<open>Lines 53 to 56: positional arguments by index, then the keyword arguments on top.\<close>

fun bind_positional :: "(string \<times> param) list \<Rightarrow> nat \<Rightarrow> pyval list \<Rightarrow> dict \<Rightarrow> error + dict" where
  "bind_positional ps i [] p = Inr p"
| "bind_positional ps i (a # as) p =
     (case get_key_by_index ps i of
        Inl e \<Rightarrow> Inl e
      | Inr k \<Rightarrow> bind_positional ps (Suc i) as (AList.update k a p))"

definition merge_args :: "(string \<times> param) list \<Rightarrow> pyval list \<Rightarrow> dict \<Rightarrow> error + dict" where
  "merge_args ps args kwargs =
     (case bind_positional ps 0 args [] of
        Inl e \<Rightarrow> Inl e
      | Inr p \<Rightarrow> Inr (dict_update p kwargs))"

text \<open>
  Lines 57 to 74: the loop over the declared parameters. Its state is the pool \<open>p\<close> of
  pending arguments, the bound arguments \<open>rargs\<close> and the flag \<open>has_kw\<close>.
\<close>

definition is_DataFrame :: "pyval \<Rightarrow> bool" where
  "is_DataFrame v = (case v of PyDataFrame df \<Rightarrow> True | _ \<Rightarrow> False)"

definition bind_one ::
    "string \<Rightarrow> param \<Rightarrow> pyval \<Rightarrow> dict \<times> dict \<times> bool \<Rightarrow> error + dict \<times> dict \<times> bool" where
  "bind_one k v ctx st =
     (case st of (p, rargs, has_kw) \<Rightarrow>
        (case cls v of
           PositionalParam \<Rightarrow> Inr (p, rargs, has_kw)
         | KeywordParam \<Rightarrow> Inr (p, rargs, True)
         | Tabular h \<Rightarrow>
             (case map_of p k of
                Some x \<Rightarrow>
                  (case x of
                     PyDataFrame df \<Rightarrow>
                       Inr (AList.delete k p, AList.update k (to_input_data h df ctx) rargs,
                            has_kw)
                   | _ \<Rightarrow> Inl (Exn TypeError (NotADataFrame x)))
              | None \<Rightarrow>
                  (if required v then Inl (Exn ValueError (RequiredNotGiven k))
                   else Inr (p, rargs, has_kw)))
         | OtherParam \<Rightarrow>
             (case map_of p k of
                Some x \<Rightarrow> Inr (AList.delete k p, AList.update k x rargs, has_kw)
              | None \<Rightarrow>
                  (if required v then Inl (Exn ValueError (RequiredNotGiven k))
                   else Inr (p, rargs, has_kw)))))"

fun bind_params ::
    "(string \<times> param) list \<Rightarrow> pyval \<Rightarrow> dict \<times> dict \<times> bool \<Rightarrow> error + dict \<times> dict \<times> bool" where
  "bind_params [] ctx st = Inr st"
| "bind_params ((k, v) # ps) ctx st =
     (case bind_one k v ctx st of
        Inl e \<Rightarrow> Inl e
      | Inr st' \<Rightarrow> bind_params ps ctx st')"

text \<open>Lines 75 to 78: the arguments left in the pool.\<close>

definition bind_rest :: "bool \<Rightarrow> dict \<times> dict \<times> bool \<Rightarrow> error + dict" where
  "bind_rest ignore_unknown st =
     (case st of (p, rargs, has_kw) \<Rightarrow>
        (if has_kw then Inr (dict_update rargs p)
         else if \<not> ignore_unknown \<and> length p > 0
           then Inl (Exn ValueError (NotAcceptable p))
         else Inr rargs))"

definition bind_args ::
    "(string \<times> param) list \<Rightarrow> pyval list \<Rightarrow> dict \<Rightarrow> bool \<Rightarrow> pyval \<Rightarrow> error + dict" where
  "bind_args ps args kwargs ignore_unknown ctx =
     (case merge_args ps args kwargs of
        Inl e \<Rightarrow> Inl e
      | Inr p \<Rightarrow>
          (case bind_params ps ctx (p, [], False) of
             Inl e \<Rightarrow> Inl e
           | Inr st \<Rightarrow> bind_rest ignore_unknown st))"

text \<open>
  Lines 79 to 86: the call and the treatment of what it returns. The outcome of
  \<^verbatim>\<open>run\<close> is the value returned or the exception raised, together with the calls that
  were made on the way: to the wrapped function and to the return handler's
  \<^verbatim>\<open>count\<close>. Returning nothing is returning \<open>PyNone\<close>.
\<close>

datatype event = Invoke dict | Count handler pyval

definition finish ::
    "runtime \<Rightarrow> param \<Rightarrow> pyval \<Rightarrow> schema option \<Rightarrow> bool \<Rightarrow> pyval
       \<Rightarrow> event list \<times> (error + pyval)" where
  "finish rtm r v output_schema output ctx =
     (if \<not> output then
        (case cls r of
           Tabular h \<Rightarrow>
             (case count rtm h v of
                Inl e \<Rightarrow> ([Count h v], Inl e)
              | Inr n \<Rightarrow> ([Count h v], Inr PyNone))
         | _ \<Rightarrow> ([], Inr PyNone))
      else
        (case cls r of
           Tabular h \<Rightarrow> ([], to_output_df rtm h v output_schema ctx)
         | _ \<Rightarrow> ([], Inr v)))"

definition run ::
    "runtime \<Rightarrow> wrapper \<Rightarrow> pyval list \<Rightarrow> dict \<Rightarrow> bool \<Rightarrow> schema option \<Rightarrow> bool \<Rightarrow> pyval
       \<Rightarrow> event list \<times> (error + pyval)" where
  "run rtm w args kwargs ignore_unknown output_schema output ctx =
     (case bind_args (params w) args kwargs ignore_unknown ctx of
        Inl e \<Rightarrow> ([], Inl e)
      | Inr rargs \<Rightarrow>
          (case func w rargs of
             Inl e \<Rightarrow> ([Invoke rargs], Inl e)
           | Inr v \<Rightarrow>
               (case finish rtm (rt w) v output_schema output ctx of
                  (evs, res) \<Rightarrow> (Invoke rargs # evs, res))))"

section \<open>The workflow-aware wrapper\<close>

text \<open>
  \<^verbatim>\<open>fugue/workflow/module.py\<close>. An argument of a module call is an execution context
  (a \<^verbatim>\<open>FugueWorkflow\<close>, known by its identity), a graph-bound dataset handle with its
  owning context, a named collection of values, or anything else. The comparison
  \<^verbatim>\<open>a.workflow is wf\<close> is the equality of identities.
\<close>

type_synonym workflow = nat

datatype marg =
    FugueWorkflow workflow
  | WorkflowDataFrame workflow
  | WorkflowDataFrames "(string \<times> marg) list"
  | OtherArg

datatype module_param = FugueWorkflowParam | WorkflowDataFrameParam | WorkflowDataFramesParam
  | OtherModuleParam

text \<open>
  The wrapper's resolved parameters, and the call protocol it inherits
  (\<^verbatim>\<open>FunctionWrapper.__call__\<close>, which is not part of the shown sources and is taken as
  it comes).
\<close>

record 'r module_wrapper =
  module_params :: "(string \<times> module_param) list"
  super_call :: "marg list \<Rightarrow> (string \<times> marg) list \<Rightarrow> error + 'r"

definition first_annotation_is_workflow :: "'r module_wrapper \<Rightarrow> error + bool" where
  "first_annotation_is_workflow w =
     (case get_value_by_index (module_params w) 0 of
        Inl e \<Rightarrow> Inl e
      | Inr v \<Rightarrow> Inr (v = FugueWorkflowParam))"

definition is_FugueWorkflow :: "marg \<Rightarrow> bool" where
  "is_FugueWorkflow a = (case a of FugueWorkflow cur \<Rightarrow> True | _ \<Rightarrow> False)"

definition need_add_workflow ::
    "'r module_wrapper \<Rightarrow> marg list \<Rightarrow> (string \<times> marg) list \<Rightarrow> error + bool" where
  "need_add_workflow w args kwargs =
     (case first_annotation_is_workflow w of
        Inl e \<Rightarrow> Inl e
      | Inr b \<Rightarrow>
          (if \<not> b then Inr False
           else
             (case get_key_by_index (module_params w) 0 of
                Inl e \<Rightarrow> Inl e
              | Inr k \<Rightarrow>
                  (if map_of kwargs k \<noteq> None then Inr False
                   else if length args > 0 \<and> is_FugueWorkflow (args ! 0) then Inr False
                   else Inr True))))"

text \<open>\<^verbatim>\<open>select_args\<close>: the handles and collections among the positional arguments,
  then among the keyword arguments' values.\<close>

definition is_handle_or_collection :: "marg \<Rightarrow> bool" where
  "is_handle_or_collection a =
     (case a of WorkflowDataFrame cur \<Rightarrow> True | WorkflowDataFrames items \<Rightarrow> True | _ \<Rightarrow> False)"

definition select_args :: "marg list \<Rightarrow> (string \<times> marg) list \<Rightarrow> marg list" where
  "select_args args kwargs =
     filter is_handle_or_collection args @ filter is_handle_or_collection (map snd kwargs)"

text \<open>The inner loop over the entries of a collection, and the loop over the selected
  arguments. The state is the context found so far.\<close>

fun infer_items :: "(string \<times> marg) list \<Rightarrow> workflow option \<Rightarrow> error + workflow option" where
  "infer_items [] cur = Inr cur"
| "infer_items ((k, v) # items) cur =
     (case v of
        WorkflowDataFrame vw \<Rightarrow>
          (if cur = None \<or> cur = Some vw then infer_items items (Some vw)
           else Inl (Exn ValueError DifferentParentWorkflows))
      | _ \<Rightarrow> Inl (Exn ValueError (NotAWorkflowDataFrame k)))"

fun infer_loop :: "marg list \<Rightarrow> workflow option \<Rightarrow> error + workflow option" where
  "infer_loop [] cur = Inr cur"
| "infer_loop (a # as) cur =
     (case a of
        WorkflowDataFrame aw \<Rightarrow>
          (if cur = None \<or> cur = Some aw then infer_loop as (Some aw)
           else Inl (Exn ValueError DifferentParentWorkflows))
      | WorkflowDataFrames items \<Rightarrow>
          (case infer_items items cur of
             Inl e \<Rightarrow> Inl e
           | Inr cur' \<Rightarrow> infer_loop as cur')
      | _ \<Rightarrow> infer_loop as cur)"

definition infer_workflow :: "marg list \<Rightarrow> (string \<times> marg) list \<Rightarrow> error + workflow option" where
  "infer_workflow args kwargs = infer_loop (select_args args kwargs) None"

definition module_call ::
    "'r module_wrapper \<Rightarrow> marg list \<Rightarrow> (string \<times> marg) list \<Rightarrow> error + 'r" where
  "module_call w args kwargs =
     (case need_add_workflow w args kwargs of
        Inl e \<Rightarrow> Inl e
      | Inr True \<Rightarrow>
          (case infer_workflow args kwargs of
             Inl e \<Rightarrow> Inl e
           | Inr None \<Rightarrow> Inl (Exn ValueError CantInferWorkflow)
           | Inr (Some cur) \<Rightarrow> super_call w (FugueWorkflow cur # args) kwargs)
      | Inr False \<Rightarrow> super_call w args kwargs)"

section \<open>Notions used to state the properties\<close>

text \<open>
  A named parameter is one that is neither the marker of \<^verbatim>\<open>*args\<close> nor the marker of
  \<^verbatim>\<open>**kwargs\<close>. A call value is acceptable for a parameter when a tabular handler gets
  a dataset handle; \<open>converted\<close> is what the wrapped function is to receive for it.
\<close>

definition is_named :: "param_class \<Rightarrow> bool" where
  "is_named c = (c \<noteq> PositionalParam \<and> c \<noteq> KeywordParam)"

definition acceptable :: "param_class \<Rightarrow> pyval \<Rightarrow> bool" where
  "acceptable c x = (case c of Tabular h \<Rightarrow> is_DataFrame x | _ \<Rightarrow> True)"

definition converted :: "param_class \<Rightarrow> pyval \<Rightarrow> pyval \<Rightarrow> pyval" where
  "converted c x ctx =
     (case c of
        Tabular h \<Rightarrow> (case x of PyDataFrame df \<Rightarrow> to_input_data h df ctx | _ \<Rightarrow> x)
      | _ \<Rightarrow> x)"

text \<open>A declared parameter binds against a pool of call values when it is a marker,
  or its call value is acceptable, or it has no call value and is not required.\<close>

definition binds :: "dict \<Rightarrow> string \<times> param \<Rightarrow> bool" where
  "binds p kv =
     (if is_named (cls (snd kv)) then
        (case map_of p (fst kv) of
           Some x \<Rightarrow> acceptable (cls (snd kv)) x
         | None \<Rightarrow> \<not> required (snd kv))
      else True)"

definition named_keys :: "(string \<times> param) list \<Rightarrow> string set" where
  "named_keys ps = set (map fst (filter (\<lambda>kv. is_named (cls (snd kv))) ps))"

definition has_keyword_param :: "(string \<times> param) list \<Rightarrow> bool" where
  "has_keyword_param ps = list_ex (\<lambda>kv. cls (snd kv) = KeywordParam) ps"

text \<open>The handlers among the declared parameters, in declared order, and the format
  hint as the specification words it: the first hint among them, else the hint of the
  return handler.\<close>

definition tabular_handlers :: "(string \<times> param) list \<Rightarrow> handler list" where
  "tabular_handlers ps =
     concat (map (\<lambda>kv. case cls (snd kv) of Tabular h \<Rightarrow> [h] | _ \<Rightarrow> []) ps)"

definition spec_format_hint :: "wrapper \<Rightarrow> string option" where
  "spec_format_hint w =
     (case List.find (\<lambda>h. format_hint h \<noteq> None) (tabular_handlers (params w)) of
        Some h \<Rightarrow> format_hint h
      | None \<Rightarrow> (case cls (rt w) of Tabular h \<Rightarrow> format_hint h | _ \<Rightarrow> None))"

text \<open>A value has the shape of a handler when it is of the type the handler's methods
  are annotated with.\<close>

fun has_shape :: "handler \<Rightarrow> pyval \<Rightarrow> bool" where
  "has_shape DataFrameParam v = is_DataFrame v"
| "has_shape LocalDataFrameParam v = is_DataFrame v"
| "has_shape LocalNoSchemaDataFrameParam v = is_DataFrame v"
| "has_shape ListListParam v = (case v of PyListList rs \<Rightarrow> True | _ \<Rightarrow> False)"
| "has_shape IterableListParam v = (case v of PyIterableList rs \<Rightarrow> True | _ \<Rightarrow> False)"
| "has_shape EmptyAwareIterableListParam v =
     (case v of PyEmptyAwareIterableList rs \<Rightarrow> True | _ \<Rightarrow> False)"
| "has_shape ListDictParam v = (case v of PyListDict ds \<Rightarrow> True | _ \<Rightarrow> False)"
| "has_shape IterableDictParam v = (case v of PyIterableDict ds \<Rightarrow> True | _ \<Rightarrow> False)"
| "has_shape EmptyAwareIterableDictParam v =
     (case v of PyEmptyAwareIterableDict ds \<Rightarrow> True | _ \<Rightarrow> False)"
| "has_shape PandasParam v = (case v of PyPandas f \<Rightarrow> True | _ \<Rightarrow> False)"
| "has_shape IterablePandasParam v = (case v of PyIterablePandas fs \<Rightarrow> True | _ \<Rightarrow> False)"
| "has_shape PyArrowTableParam v = (case v of PyArrowTable t \<Rightarrow> True | _ \<Rightarrow> False)"
| "has_shape IterableArrowParam v = (case v of PyIterableArrow ts \<Rightarrow> True | _ \<Rightarrow> False)"

text \<open>The number of rows met when a concrete value is iterated to its end, row by row;
  a sequence of frames or tables is iterated batch after batch.\<close>

fun rows_iterated :: "pyval \<Rightarrow> nat" where
  "rows_iterated (PyDataFrame df) = length (as_array_iterable df)"
| "rows_iterated (PyListList rs) = length rs"
| "rows_iterated (PyIterableList rs) = length rs"
| "rows_iterated (PyEmptyAwareIterableList rs) = length rs"
| "rows_iterated (PyListDict ds) = length ds"
| "rows_iterated (PyIterableDict ds) = length ds"
| "rows_iterated (PyEmptyAwareIterableDict ds) = length ds"
| "rows_iterated (PyPandas (PdFrame s rs)) = length rs"
| "rows_iterated (PyIterablePandas fs) = length (concat (map (\<lambda>f. case f of PdFrame s rs \<Rightarrow> rs) fs))"
| "rows_iterated (PyArrowTable (PaTable s rs)) = length rs"
| "rows_iterated (PyIterableArrow ts) = length (concat (map (\<lambda>t. case t of PaTable s rs \<Rightarrow> rs) ts))"
| "rows_iterated _ = 0"

text \<open>The owning contexts of the graph-bound handles met by the scan of a module call,
  in the order of the scan, and the collections whose entries are all handles.\<close>

definition entry_owners :: "(string \<times> marg) list \<Rightarrow> workflow list" where
  "entry_owners items =
     concat (map (\<lambda>kv. case snd kv of WorkflowDataFrame x \<Rightarrow> [x] | _ \<Rightarrow> []) items)"

definition owners_of :: "marg \<Rightarrow> workflow list" where
  "owners_of a =
     (case a of
        WorkflowDataFrame x \<Rightarrow> [x]
      | WorkflowDataFrames items \<Rightarrow> entry_owners items
      | _ \<Rightarrow> [])"

definition owners :: "marg list \<Rightarrow> (string \<times> marg) list \<Rightarrow> workflow list" where
  "owners args kwargs = concat (map owners_of (args @ map snd kwargs))"

definition is_WorkflowDataFrame :: "marg \<Rightarrow> bool" where
  "is_WorkflowDataFrame a = (case a of WorkflowDataFrame x \<Rightarrow> True | _ \<Rightarrow> False)"

definition well_formed :: "marg \<Rightarrow> bool" where
  "well_formed a =
     (case a of
        WorkflowDataFrames items \<Rightarrow> list_all (\<lambda>kv. is_WorkflowDataFrame (snd kv)) items
      | _ \<Rightarrow> True)"

definition all_agree :: "workflow list \<Rightarrow> bool" where
  "all_agree xs = (case xs of [] \<Rightarrow> True | x # r \<Rightarrow> list_all (\<lambda>y. y = x) r)"

definition omits_context :: "(string \<times> module_param) list \<Rightarrow> marg list \<Rightarrow> (string \<times> marg) list \<Rightarrow> bool" where
  "omits_context ps args kwargs =
     (case ps of
        [] \<Rightarrow> False
      | kv # _ \<Rightarrow>
          snd kv = FugueWorkflowParam \<and> map_of kwargs (fst kv) = None \<and>
          (case args of [] \<Rightarrow> True | a # _ \<Rightarrow> \<not> is_FugueWorkflow a))"

text \<open>The outcome of scanning a list of owning contexts, starting from the context
  found so far: it fails on the first one that differs.\<close>

definition scan_result :: "workflow option \<Rightarrow> workflow list \<Rightarrow> error + workflow option" where
  "scan_result cur xs =
     (if all_agree (case cur of None \<Rightarrow> xs | Some c \<Rightarrow> c # xs)
      then Inr (if xs = [] then cur else Some (last xs))
      else Inl (Exn ValueError DifferentParentWorkflows))"

section \<open>Concrete wrappers\<close>

text \<open>
  A runtime for the examples. Of the calls on a value outside the annotated type it
  answers one, as Python does: \<^verbatim>\<open>len\<close> of a list of dictionaries, which the row-list
  handler's \<^verbatim>\<open>count\<close> takes, is the length of the list. The examples make no other
  such call.
\<close>

definition outside_annotated_type :: "error" where
  "outside_annotated_type = Exn ForeignError NotOfAnnotatedType"

definition example_runtime :: runtime where
  "example_runtime =
     \<lparr>count_other =
        (\<lambda>h v. if h = ListListParam
           then (case v of
                   PyListDict ds \<Rightarrow> Inr (PyInt (int (length ds)))
                 | _ \<Rightarrow> Inl outside_annotated_type)
           else Inl outside_annotated_type),
      output_other = (\<lambda>h v sch. Inl outside_annotated_type),
      align_columns = (\<lambda>adf s. Inl outside_annotated_type)\<rparr>"

definition required_named :: param where
  "required_named = \<lparr>cls = OtherParam, required = True\<rparr>"

definition returns_five :: "dict \<Rightarrow> error + pyval" where
  "returns_five rargs = Inr (PyInt 5)"

definition wrapper_ab :: wrapper where
  "wrapper_ab =
     \<lparr>params = [(''a'', required_named), (''b'', required_named)],
      rt = \<lparr>cls = OtherParam, required = True\<rparr>, func = returns_five\<rparr>"

definition frame_ab :: dataframe where
  "frame_ab =
     \<lparr>schema = [(''x'', ''int'')], rows = [[CInt 1], [CInt 2]], is_bounded = True,
      is_local = True, native = None\<rparr>"

definition wrapper_pandas :: wrapper where
  "wrapper_pandas =
     \<lparr>params = [(''n'', required_named), (''df'', \<lparr>cls = Tabular PandasParam, required = True\<rparr>)],
      rt = \<lparr>cls = Tabular ListListParam, required = True\<rparr>, func = returns_five\<rparr>"

definition returns_frame :: "dict \<Rightarrow> error + pyval" where
  "returns_frame rargs = Inr (PyDataFrame frame_ab)"

definition wrapper_frame :: wrapper where
  "wrapper_frame =
     \<lparr>params = [(''a'', required_named)],
      rt = \<lparr>cls = Tabular DataFrameParam, required = True\<rparr>, func = returns_frame\<rparr>"

definition returns_dicts :: "dict \<Rightarrow> error + pyval" where
  "returns_dicts rargs = Inr (PyListDict [[(''x'', CInt 1)]])"

definition wrapper_rows :: wrapper where
  "wrapper_rows =
     \<lparr>params = [], rt = \<lparr>cls = Tabular ListListParam, required = True\<rparr>,
      func = returns_dicts\<rparr>"

definition echo_call :: "marg list \<Rightarrow> (string \<times> marg) list \<Rightarrow> error + marg list" where
  "echo_call args kwargs = Inr args"

definition module_wv :: "(marg list) module_wrapper" where
  "module_wv =
     \<lparr>module_params = [(''wf'', FugueWorkflowParam), (''df'', WorkflowDataFrameParam)],
      super_call = echo_call\<rparr>"

section \<open>The format hint\<close>

lemma first_param_hint_find:
  "first_param_hint ps =
     (case List.find (\<lambda>h. format_hint h \<noteq> None) (tabular_handlers ps) of
        Some h \<Rightarrow> format_hint h | None \<Rightarrow> None)"
  by (induction ps) (auto simp: tabular_handlers_def split: param_class.splits option.splits)

lemma find_hint_Some:
  "List.find (\<lambda>h. format_hint h \<noteq> None) hs = Some h \<Longrightarrow> format_hint h \<noteq> None"
  by (induction hs) (auto split: if_splits)

text \<open>
  Claim C8: \<^verbatim>\<open>get_format_hint\<close> returns the hint of the first parameter handler, in
  declared order, whose hint is not none; if no parameter handler declares a hint it
  returns the hint of the return handler, and \<open>None\<close> if there is none either. For a
  signature whose only tabular parameter is the pandas handler the result is
  \<^verbatim>\<open>"pandas"\<close>.
\<close>

theorem get_format_hint_first_hint:
  "get_format_hint w = spec_format_hint w \<and>
   (tabular_handlers (params w) = [PandasParam] \<longrightarrow> get_format_hint w = Some ''pandas'') \<and>
   (list_all (\<lambda>h. format_hint h = None) (tabular_handlers (params w)) \<and>
      (case cls (rt w) of Tabular h \<Rightarrow> format_hint h = None | _ \<Rightarrow> True)
    \<longrightarrow> get_format_hint w = None)"
proof (intro conjI impI)
  show eq: "get_format_hint w = spec_format_hint w"
    using find_hint_Some [of "tabular_handlers (params w)"]
    by (auto simp: get_format_hint_def spec_format_hint_def first_param_hint_find
        split: option.splits)
  show "get_format_hint w = Some ''pandas''" if "tabular_handlers (params w) = [PandasParam]"
    using that by (simp add: eq spec_format_hint_def)
  show "get_format_hint w = None"
    if "list_all (\<lambda>h. format_hint h = None) (tabular_handlers (params w)) \<and>
      (case cls (rt w) of Tabular h \<Rightarrow> format_hint h = None | _ \<Rightarrow> True)"
  proof -
    from that have "List.find (\<lambda>h. format_hint h \<noteq> None) (tabular_handlers (params w)) = None"
      by (simp add: find_None_iff list_all_iff)
    with that show ?thesis
      by (simp add: eq spec_format_hint_def split: param_class.splits)
  qed
qed

theorem get_format_hint_first_hint_witness:
  "tabular_handlers (params wrapper_pandas) = [PandasParam] \<and>
   get_format_hint wrapper_pandas = Some ''pandas'' \<and>
   get_format_hint wrapper_pandas = spec_format_hint wrapper_pandas \<and>
   list_all (\<lambda>h. format_hint h = None) (tabular_handlers (params wrapper_frame)) \<and>
   get_format_hint wrapper_frame = None"
  using get_format_hint_first_hint [of wrapper_pandas] get_format_hint_first_hint [of wrapper_frame]
  by (simp add: wrapper_pandas_def wrapper_frame_def required_named_def tabular_handlers_def
      spec_format_hint_def)

section \<open>Counting rows\<close>

text \<open>
  Every handler but the one of the realized Arrow table counts, on a value of its shape,
  the rows that iterating the value gives, the empty value included.
\<close>

lemma count_rows_iterated:
  "h \<noteq> PyArrowTableParam \<Longrightarrow> has_shape h v \<Longrightarrow>
   count rtm h v = Inr (PyInt (int (rows_iterated v)))"
proof -
  have one: "sum_list (map (\<lambda>_. Suc 0) xs) = length xs" for xs :: "'a list"
    by (induction xs) auto
  have pd: "sum_list (map pandas_shape0 fs) =
      length (concat (map (\<lambda>f. case f of PdFrame s rs \<Rightarrow> rs) fs))" for fs
    by (induction fs) (auto split: pandas.splits)
  have pa: "sum_list (map arrow_shape0 ts) =
      length (concat (map (\<lambda>t. case t of PaTable s rs \<Rightarrow> rs) ts))" for ts
    by (induction ts) (auto split: arrow.splits)
  have p1: "pandas_shape0 f = rows_iterated (PyPandas f)" for f
    by (cases f) simp
  assume "h \<noteq> PyArrowTableParam" "has_shape h v"
  then show ?thesis
    by (cases h; cases v)
      (auto simp: one pd pa p1 counted_def is_DataFrame_def DataFrameParam_count_def
        df_count_def as_array_iterable_def
        ListListParam_count_def IterableListParam_count_def ListDictParam_count_def
        IterableDictParam_count_def PandasParam_count_def IterablePandasParam_count_def
        IterableArrowParam_count_def)
qed

text \<open>
  Claim C6: the \<^verbatim>\<open>count\<close> of every handler is the number of rows obtained by iterating
  the value, zero rows included, and in particular for the handler of the realized Arrow
  table. The code of that handler does not do it: \<^verbatim>\<open>_PyArrowTableParam.count\<close> calls
  \<^verbatim>\<open>df.count()\<close> on the table, a method an Arrow table does not have, where the
  sibling \<^verbatim>\<open>_IterableArrowParam.count\<close> reads \<^verbatim>\<open>shape[0]\<close>. On every table,
  the empty one included, the call raises instead of returning the number of rows.
\<close>

theorem arrow_table_count_fails:
  "count rtm PyArrowTableParam (PyArrowTable (PaTable s rs)) =
     Inl (Exn AttributeError (NoAttribute ''count''))"
  by (simp add: PyArrowTableParam_count_def)

section \<open>The schema check on output\<close>

text \<open>
  Claim C7: for the abstract handle as return shape, \<^verbatim>\<open>to_output_df\<close> with a declared
  schema that differs from the schema of the produced handle fails with an error whose
  message holds both the produced and the expected schema; with no declared schema, or
  with the schema of the produced handle, it returns the produced handle itself.
\<close>

theorem to_output_df_schema_check:
  "(s \<noteq> schema df \<longrightarrow>
      to_output_df rtm DataFrameParam (PyDataFrame df) (Some s) ctx =
        Inl (Exn AssertionError (OutputSchemaMismatch (schema df) s))) \<and>
   to_output_df rtm DataFrameParam (PyDataFrame df) None ctx = Inr (PyDataFrame df) \<and>
   to_output_df rtm DataFrameParam (PyDataFrame df) (Some (schema df)) ctx = Inr (PyDataFrame df)"
  by (auto simp: handle_to_output_df_def DataFrameParam_to_output_df_def assert_or_throw_def
      lift_df_def)

theorem to_output_df_schema_check_witness:
  "[(''y'', ''str'')] \<noteq> schema frame_ab \<and>
   to_output_df example_runtime DataFrameParam (PyDataFrame frame_ab) (Some [(''y'', ''str'')]) PyNone =
     Inl (Exn AssertionError (OutputSchemaMismatch [(''x'', ''int'')] [(''y'', ''str'')])) \<and>
   to_output_df example_runtime DataFrameParam (PyDataFrame frame_ab) (Some [(''x'', ''int'')]) PyNone =
     Inr (PyDataFrame frame_ab)"
  using to_output_df_schema_check [of "[(''y'', ''str'')]" frame_ab example_runtime PyNone]
  by (simp add: frame_ab_def)

section \<open>Tabular parameters are required\<close>

text \<open>
  Claim C10: constructing the binding of any tabular handler for a function parameter
  that is not required, that is, one with a default value, raises \<^verbatim>\<open>TypeError\<close>; a
  binding that is constructed is required, so no wrapped function has an optional
  tabular parameter.
\<close>

theorem tabular_param_must_be_required:
  "(\<not> required (AnnotatedParam_init (Tabular h) ip) \<longrightarrow>
      DataFrameParamBase_init h ip = Inl (Exn TypeError MustBeRequired)) \<and>
   (has_default q \<longrightarrow> DataFrameParamBase_init h (Some q) = Inl (Exn TypeError MustBeRequired)) \<and>
   (DataFrameParamBase_init h ip = Inr v \<longrightarrow> required v \<and> cls v = Tabular h)"
  by (auto simp: DataFrameParamBase_init_def AnnotatedParam_init_def assert_or_throw_def Let_def
      split: option.splits if_splits)

theorem tabular_param_must_be_required_witness:
  "has_default \<lparr>name = ''df'', has_default = True\<rparr> \<and>
   DataFrameParamBase_init PandasParam (Some \<lparr>name = ''df'', has_default = True\<rparr>) =
     Inl (Exn TypeError MustBeRequired) \<and>
   DataFrameParamBase_init PandasParam (Some \<lparr>name = ''df'', has_default = False\<rparr>) =
     Inr \<lparr>cls = Tabular PandasParam, required = True\<rparr>"
  using tabular_param_must_be_required
    [of PandasParam "Some \<lparr>name = ''df'', has_default = True\<rparr>"
        "\<lparr>name = ''df'', has_default = True\<rparr>"]
  by (simp add: DataFrameParamBase_init_def AnnotatedParam_init_def assert_or_throw_def)

section \<open>Merging the call arguments\<close>

lemma map_of_dict_update:
  "distinct (map fst kw) \<Longrightarrow>
   map_of (dict_update p kw) k = (case map_of kw k of Some x \<Rightarrow> Some x | None \<Rightarrow> map_of p k)"
proof (induction kw arbitrary: p)
  case Nil
  then show ?case by (simp add: dict_update_def)
next
  case (Cons kv kw)
  obtain k0 v0 where kv: "kv = (k0, v0)" by (cases kv)
  have step: "dict_update p ((k0, v0) # kw) = dict_update (AList.update k0 v0 p) kw"
    by (simp add: dict_update_def)
  from Cons.prems have d: "distinct (map fst kw)" and notin: "k0 \<notin> fst ` set kw"
    by (auto simp: kv)
  from notin have none: "map_of kw k0 = None"
    by (simp add: map_of_eq_None_iff)
  show ?case
    using Cons.IH [OF d, of "AList.update k0 v0 p"] none
    by (auto simp: step kv AList.update_conv' split: option.splits)
qed

lemma dict_update_keep:
  "k \<notin> fst ` set kw \<Longrightarrow> map_of (dict_update p kw) k = map_of p k"
proof (induction kw arbitrary: p)
  case Nil
  then show ?case by (simp add: dict_update_def)
next
  case (Cons kv kw)
  obtain k0 v0 where kv: "kv = (k0, v0)" by (cases kv)
  have step: "dict_update p ((k0, v0) # kw) = dict_update (AList.update k0 v0 p) kw"
    by (simp add: dict_update_def)
  from Cons.prems have "k \<noteq> k0" "k \<notin> fst ` set kw" by (auto simp: kv)
  then show ?case
    using Cons.IH [of "AList.update k0 v0 p"] by (simp add: step kv AList.update_conv')
qed

lemma bind_positional_Inr:
  "bind_positional ps i args p = Inr p' \<Longrightarrow> distinct (map fst ps) \<Longrightarrow>
   (args = [] \<or> i + length args \<le> length ps) \<and>
   map_of p' k =
     (case map_of (zip (map fst (take (length args) (drop i ps))) args) k of
        Some x \<Rightarrow> Some x
      | None \<Rightarrow> map_of p k)"
proof (induction args arbitrary: i p)
  case Nil
  then show ?case by simp
next
  case (Cons a as)
  from Cons.prems have i: "i < length ps"
    by (auto simp: get_key_by_index_def split: if_splits)
  with Cons.prems have rec: "bind_positional ps (Suc i) as (AList.update (fst (ps ! i)) a p) = Inr p'"
    by (simp add: get_key_by_index_def)
  from i have dr: "drop i ps = ps ! i # drop (Suc i) ps"
    by (simp add: Cons_nth_drop_Suc)
  from Cons.prems(2) have "distinct (map fst (drop i ps))"
    by (simp add: distinct_drop drop_map [symmetric])
  then have "fst (ps ! i) \<notin> set (map fst (drop (Suc i) ps))"
    by (simp add: dr)
  then have "fst (ps ! i) \<notin> set (map fst (take (length as) (drop (Suc i) ps)))"
    by (auto dest: in_set_takeD)
  then have none: "map_of (zip (map fst (take (length as) (drop (Suc i) ps))) as) (fst (ps ! i)) = None"
    by (auto simp: map_of_eq_None_iff dest!: set_zip_leftD)
  from Cons.IH [OF rec Cons.prems(2)] have
    len: "as = [] \<or> Suc i + length as \<le> length ps" and
    look: "map_of p' k =
      (case map_of (zip (map fst (take (length as) (drop (Suc i) ps))) as) k of
         Some x \<Rightarrow> Some x
       | None \<Rightarrow> map_of (AList.update (fst (ps ! i)) a p) k)"
    by auto
  show ?case
    using len i look none by (auto simp: dr AList.update_conv' split: option.splits)
qed

lemma bind_positional_too_many:
  "length ps < i + length args \<Longrightarrow> args \<noteq> [] \<Longrightarrow> \<exists>j. bind_positional ps i args p = Inl (Exn IndexError (IndexOutOfRange j))"
proof (induction args arbitrary: i p)
  case Nil
  then show ?case by simp
next
  case (Cons a as)
  show ?case
  proof (cases "i < length ps")
    case True
    with Cons.prems have "as \<noteq> []" "length ps < Suc i + length as" by auto
    from Cons.IH [OF this(2) this(1)] True show ?thesis
      by (simp add: get_key_by_index_def)
  next
    case False
    then show ?thesis by (simp add: get_key_by_index_def)
  qed
qed

lemma merge_args_lookup:
  assumes m: "merge_args ps args kwargs = Inr p"
    and dps: "distinct (map fst ps)" and dkw: "distinct (map fst kwargs)"
  shows "length args \<le> length ps \<and> map_of p k =
     (case map_of kwargs k of
        Some x \<Rightarrow> Some x
      | None \<Rightarrow> map_of (zip (map fst (take (length args) ps)) args) k)"
proof -
  from m obtain p0 where p0: "bind_positional ps 0 args [] = Inr p0"
    and p: "p = dict_update p0 kwargs"
    by (auto simp: merge_args_def split: sum.splits)
  from bind_positional_Inr [OF p0 dps, of k]
  have "length args \<le> length ps"
    and "map_of p0 k = map_of (zip (map fst (take (length args) ps)) args) k"
    by (auto split: option.splits)
  then show ?thesis
    by (simp add: p map_of_dict_update [OF dkw] split: option.splits)
qed

lemma merge_args_Inr:
  "length args \<le> length ps \<Longrightarrow> \<exists>p. merge_args ps args kwargs = Inr p"
proof -
  have "i + length args \<le> length ps \<Longrightarrow> \<exists>p'. bind_positional ps i args p = Inr p'" for i p
    by (induction args arbitrary: i p) (auto simp: get_key_by_index_def)
  from this [of 0 "[]"] show "length args \<le> length ps \<Longrightarrow> ?thesis"
    by (auto simp: merge_args_def)
qed

section \<open>Binding the declared parameters\<close>

lemma bind_one_Inr:
  assumes "bind_one k v ctx (p, r, kw) = Inr (p1, r1, kw1)"
  shows "p1 = (if is_named (cls v) then AList.delete k p else p) \<and>
     r1 = (if is_named (cls v) then
             (case map_of p k of
                Some x \<Rightarrow> AList.update k (converted (cls v) x ctx) r
              | None \<Rightarrow> r)
           else r) \<and>
     kw1 = (kw \<or> cls v = KeywordParam) \<and> binds p (k, v)"
proof (cases "cls v")
  case PositionalParam
  with assms show ?thesis by (auto simp: bind_one_def is_named_def binds_def)
next
  case KeywordParam
  with assms show ?thesis by (auto simp: bind_one_def is_named_def binds_def)
next
  case (Tabular h)
  show ?thesis
  proof (cases "map_of p k")
    case None
    then have "k \<notin> fst ` set p" by (simp add: map_of_eq_None_iff)
    with assms Tabular None show ?thesis
      by (auto simp: bind_one_def is_named_def binds_def split: if_splits)
  next
    case (Some x)
    with assms Tabular show ?thesis
      by (cases x)
        (auto simp: bind_one_def is_named_def binds_def acceptable_def converted_def
          is_DataFrame_def)
  qed
next
  case OtherParam
  show ?thesis
  proof (cases "map_of p k")
    case None
    then have "k \<notin> fst ` set p" by (simp add: map_of_eq_None_iff)
    with assms OtherParam None show ?thesis
      by (auto simp: bind_one_def is_named_def binds_def split: if_splits)
  next
    case (Some x)
    with assms OtherParam show ?thesis
      by (auto simp: bind_one_def is_named_def binds_def acceptable_def converted_def)
  qed
qed

lemma bind_one_Inl:
  assumes "bind_one k v ctx (p, r, kw) = Inl e"
  shows "\<not> binds p (k, v) \<and>
     e = (case map_of p k of
            Some x \<Rightarrow> Exn TypeError (NotADataFrame x)
          | None \<Rightarrow> Exn ValueError (RequiredNotGiven k))"
proof (cases "cls v")
  case PositionalParam
  with assms show ?thesis by (auto simp: bind_one_def)
next
  case KeywordParam
  with assms show ?thesis by (auto simp: bind_one_def)
next
  case (Tabular h)
  show ?thesis
  proof (cases "map_of p k")
    case None
    with assms Tabular show ?thesis
      by (auto simp: bind_one_def is_named_def binds_def split: if_splits)
  next
    case (Some x)
    with assms Tabular show ?thesis
      by (cases x)
        (auto simp: bind_one_def is_named_def binds_def acceptable_def is_DataFrame_def)
  qed
next
  case OtherParam
  with assms show ?thesis
    by (auto simp: bind_one_def is_named_def binds_def split: if_splits option.splits)
qed

lemma bind_params_append:
  "bind_params (xs @ ys) ctx st =
     (case bind_params xs ctx st of Inl e \<Rightarrow> Inl e | Inr st' \<Rightarrow> bind_params ys ctx st')"
  by (induction xs arbitrary: st) (auto split: sum.splits)

lemma bind_params_Inr:
  assumes "bind_params ps ctx (p, r, kw) = Inr (p', r', kw')"
  shows "p' = filter (\<lambda>kv. fst kv \<notin> named_keys ps) p \<and> kw' = (kw \<or> has_keyword_param ps)"
  using assms
proof (induction ps arbitrary: p r kw)
  case Nil
  then show ?case by (simp add: named_keys_def has_keyword_param_def)
next
  case (Cons kv ps)
  obtain k v where kv: "kv = (k, v)" by (cases kv)
  from Cons.prems obtain p1 r1 kw1 where
    one: "bind_one k v ctx (p, r, kw) = Inr (p1, r1, kw1)" and
    rest: "bind_params ps ctx (p1, r1, kw1) = Inr (p', r', kw')"
    by (auto simp: kv split: sum.splits)
  have nk: "named_keys (kv # ps) = (if is_named (cls v) then {k} else {}) \<union> named_keys ps"
    by (force simp: named_keys_def kv)
  from bind_one_Inr [OF one] have
    p1: "p1 = (if is_named (cls v) then AList.delete k p else p)" and
    kw1: "kw1 = (kw \<or> cls v = KeywordParam)"
    by auto
  from Cons.IH [OF rest] have
    p': "p' = filter (\<lambda>kv. fst kv \<notin> named_keys ps) p1" and
    kw': "kw' = (kw1 \<or> has_keyword_param ps)"
    by auto
  have "p' = filter (\<lambda>e. fst e \<notin> named_keys (kv # ps)) p"
  proof (cases "is_named (cls v)")
    case True
    then show ?thesis
      by (auto simp: p' p1 nk AList.delete_eq intro!: filter_cong)
  next
    case False
    then show ?thesis by (simp add: p' p1 nk)
  qed
  moreover have "kw' = (kw \<or> has_keyword_param (kv # ps))"
    by (auto simp: kw' kw1 has_keyword_param_def kv)
  ultimately show ?case by simp
qed

lemma bind_params_rargs:
  assumes "bind_params ps ctx (p, r, kw) = Inr (p', r', kw')" and "distinct (map fst ps)"
  shows "map_of r' k =
     (case map_of ps k of
        Some v \<Rightarrow>
          (if is_named (cls v) then
             (case map_of p k of
                Some x \<Rightarrow> Some (converted (cls v) x ctx)
              | None \<Rightarrow> map_of r k)
           else map_of r k)
      | None \<Rightarrow> map_of r k)"
  using assms
proof (induction ps arbitrary: p r kw)
  case Nil
  then show ?case by simp
next
  case (Cons kv ps)
  obtain k0 v0 where kv: "kv = (k0, v0)" by (cases kv)
  from Cons.prems obtain p1 r1 kw1 where
    one: "bind_one k0 v0 ctx (p, r, kw) = Inr (p1, r1, kw1)" and
    rest: "bind_params ps ctx (p1, r1, kw1) = Inr (p', r', kw')"
    by (auto simp: kv split: sum.splits)
  from Cons.prems(2) have d: "distinct (map fst ps)" and "k0 \<notin> fst ` set ps"
    by (auto simp: kv)
  then have none: "map_of ps k0 = None" by (simp add: map_of_eq_None_iff)
  note ih = Cons.IH [OF rest d]
  from bind_one_Inr [OF one] have
    p1: "p1 = (if is_named (cls v0) then AList.delete k0 p else p)" and
    r1: "r1 = (if is_named (cls v0) then
             (case map_of p k0 of
                Some x \<Rightarrow> AList.update k0 (converted (cls v0) x ctx) r
              | None \<Rightarrow> r)
           else r)"
    by auto
  show ?case
  proof (cases "k = k0")
    case True
    then show ?thesis
      using ih none by (simp add: kv r1 AList.update_conv' split: option.splits)
  next
    case False
    then have "map_of p1 k = map_of p k" "map_of r1 k = map_of r k"
      by (auto simp: p1 r1 AList.update_conv' AList.delete_conv' split: option.splits)
    with False show ?thesis
      using ih by (simp add: kv split: option.splits)
  qed
qed

lemma bind_params_succeeds_iff:
  assumes "distinct (map fst ps)"
  shows "(\<exists>st. bind_params ps ctx (p, r, kw) = Inr st) \<longleftrightarrow> list_all (binds p) ps"
  using assms
proof (induction ps arbitrary: p r kw)
  case Nil
  then show ?case by simp
next
  case (Cons kv ps)
  obtain k v where kv: "kv = (k, v)" by (cases kv)
  from Cons.prems have d: "distinct (map fst ps)" and notin: "k \<notin> fst ` set ps"
    by (auto simp: kv)
  have same: "list_all (binds (AList.delete k p)) ps \<longleftrightarrow> list_all (binds p) ps"
    using notin by (induction ps) (auto simp: binds_def AList.delete_conv')
  show ?case
  proof (cases "bind_one k v ctx (p, r, kw)")
    case (Inl e)
    with bind_one_Inl [OF Inl] show ?thesis by (simp add: kv)
  next
    case (Inr st1)
    obtain p1 r1 kw1 where st1: "st1 = (p1, r1, kw1)" by (cases st1)
    from bind_one_Inr [OF Inr [unfolded st1]] have
      p1: "p1 = (if is_named (cls v) then AList.delete k p else p)" and b: "binds p (k, v)"
      by auto
    from Cons.IH [OF d, of p1 r1 kw1] same b show ?thesis
      by (simp add: kv Inr st1 p1 split: if_splits)
  qed
qed

lemma bind_params_first_failure:
  assumes d: "distinct (map fst ps)" and i: "i < length ps" and kv: "ps ! i = (k, v)"
    and before: "list_all (binds p) (take i ps)" and bad: "\<not> binds p (k, v)"
  shows "bind_params ps ctx (p, r, kw) =
     Inl (case map_of p k of
            Some x \<Rightarrow> Exn TypeError (NotADataFrame x)
          | None \<Rightarrow> Exn ValueError (RequiredNotGiven k))"
proof -
  from i have split: "ps = take i ps @ (k, v) # drop (Suc i) ps"
    by (simp add: kv [symmetric] id_take_nth_drop [symmetric])
  from d have dt: "distinct (map fst (take i ps))"
    by (simp add: distinct_take take_map [symmetric])
  from bind_params_succeeds_iff [OF dt, of ctx p r kw] before
  obtain st where st: "bind_params (take i ps) ctx (p, r, kw) = Inr st" by auto
  obtain p1 r1 kw1 where st1: "st = (p1, r1, kw1)" by (cases st)
  from bind_params_Inr [OF st [unfolded st1]]
  have p1: "p1 = filter (\<lambda>kv. fst kv \<notin> named_keys (take i ps)) p" by simp
  have "k \<notin> fst ` set (take i ps)"
  proof
    assume "k \<in> fst ` set (take i ps)"
    then obtain j where j: "j < i" "fst (ps ! j) = k"
      using i by (auto simp: in_set_conv_nth)
    with i kv have "map fst ps ! j = map fst ps ! i" by simp
    with j i show False
      using nth_eq_iff_index_eq [OF d, of j i] by simp
  qed
  then have "k \<notin> named_keys (take i ps)" by (auto simp: named_keys_def)
  then have look: "map_of p1 k = map_of p k"
    unfolding p1 by (induction p) auto
  have "binds p1 (k, v) = binds p (k, v)"
    by (simp add: binds_def look)
  with bad have "\<not> binds p1 (k, v)" by simp
  then obtain e where e: "bind_one k v ctx (p1, r1, kw1) = Inl e"
    using bind_one_Inr [of k v ctx p1 r1 kw1]
    by (cases "bind_one k v ctx (p1, r1, kw1)") auto
  from bind_one_Inl [OF e] look have
    "e = (case map_of p k of
            Some x \<Rightarrow> Exn TypeError (NotADataFrame x)
          | None \<Rightarrow> Exn ValueError (RequiredNotGiven k))"
    by simp
  then show ?thesis
    by (subst split) (simp add: bind_params_append st st1 e)
qed

lemma run_bind_failure:
  "bind_args (params w) args kwargs iu ctx = Inl e \<Longrightarrow>
   run rtm w args kwargs iu os out ctx = ([], Inl e)"
  by (simp add: run_def)

lemma bind_args_Inl_cases:
  assumes "bind_args ps args kwargs iu ctx = Inl e"
  shows "(\<exists>j. e = Exn IndexError (IndexOutOfRange j) \<and> length ps < length args) \<or>
     (\<exists>k v x. e = Exn TypeError (NotADataFrame x) \<and> (k, v) \<in> set ps \<and>
        (\<exists>h. cls v = Tabular h) \<and> \<not> is_DataFrame x) \<or>
     (\<exists>k v. e = Exn ValueError (RequiredNotGiven k) \<and> (k, v) \<in> set ps \<and>
        is_named (cls v) \<and> required v) \<or>
     (\<exists>p. e = Exn ValueError (NotAcceptable p) \<and> p \<noteq> [] \<and> \<not> iu \<and> \<not> has_keyword_param ps)"
proof (cases "merge_args ps args kwargs")
  case (Inl e')
  with assms have e: "e' = e" by (simp add: bind_args_def)
  have "bind_positional ps i as p = Inl e \<Longrightarrow>
      \<exists>j. e = Exn IndexError (IndexOutOfRange j) \<and> length ps < i + length as" for i as p
  proof (induction as arbitrary: i p)
    case Nil
    then show ?case by simp
  next
    case (Cons a as)
    show ?case
    proof (cases "i < length ps")
      case True
      with Cons.prems
      have "bind_positional ps (Suc i) as (AList.update (fst (ps ! i)) a p) = Inl e"
        by (simp add: get_key_by_index_def)
      from Cons.IH [OF this] show ?thesis by auto
    next
      case False
      with Cons.prems show ?thesis by (auto simp: get_key_by_index_def)
    qed
  qed
  from this [of 0 args "[]"] Inl e show ?thesis
    by (auto simp: merge_args_def split: sum.splits)
next
  case (Inr p)
  show ?thesis
  proof (cases "bind_params ps ctx (p, [], False)")
    case (Inl e')
    with assms Inr have e: "e' = e" by (simp add: bind_args_def)
    have "bind_params qs ctx st = Inl e \<Longrightarrow>
      (\<exists>k v x. e = Exn TypeError (NotADataFrame x) \<and> (k, v) \<in> set qs \<and>
        (\<exists>h. cls v = Tabular h) \<and> \<not> is_DataFrame x) \<or>
      (\<exists>k v. e = Exn ValueError (RequiredNotGiven k) \<and> (k, v) \<in> set qs \<and>
        is_named (cls v) \<and> required v)" for qs st
    proof (induction qs arbitrary: st)
      case Nil
      then show ?case by simp
    next
      case (Cons kv qs)
      obtain k v where kv: "kv = (k, v)" by (cases kv)
      obtain p r kw where st: "st = (p, r, kw)" by (cases st)
      show ?case
      proof (cases "bind_one k v ctx st")
        case (Inl e1)
        with Cons.prems have "e1 = e" by (simp add: kv)
        with Inl have "bind_one k v ctx (p, r, kw) = Inl e" by (simp add: st)
        then show ?thesis
          by (fastforce simp: bind_one_def kv is_named_def is_DataFrame_def
              split: param_class.splits option.splits pyval.splits if_splits)
      next
        case (Inr st1)
        with Cons.prems have "bind_params qs ctx st1 = Inl e" by (simp add: kv)
        from Cons.IH [OF this] show ?thesis by (auto simp: kv)
      qed
    qed
    from this [of ps "(p, [], False)"] Inl e show ?thesis by auto
  next
    case st: (Inr st)
    obtain p' r' kw' where st1: "st = (p', r', kw')" by (cases st)
    from bind_params_Inr [OF st [unfolded st1]] have "kw' = has_keyword_param ps" by simp
    with assms Inr st st1 show ?thesis
      by (auto simp: bind_args_def bind_rest_def split: if_splits)
  qed
qed

lemma bind_args_rargs:
  assumes b: "bind_args ps args kwargs iu ctx = Inr rargs"
    and m: "merge_args ps args kwargs = Inr p"
    and d: "distinct (map fst ps)"
    and kv: "(k, v) \<in> set ps" and n: "is_named (cls v)" and x: "map_of p k = Some x"
  shows "map_of rargs k = Some (converted (cls v) x ctx) \<and> acceptable (cls v) x"
proof -
  from b m obtain p' r' kw' where
    st: "bind_params ps ctx (p, [], False) = Inr (p', r', kw')" and
    rest: "bind_rest iu (p', r', kw') = Inr rargs"
    by (auto simp: bind_args_def split: sum.splits)
  from d kv have look: "map_of ps k = Some v" by simp
  from bind_params_rargs [OF st d, of k] look n x
  have r': "map_of r' k = Some (converted (cls v) x ctx)" by simp
  from bind_params_Inr [OF st] have p': "p' = filter (\<lambda>e. fst e \<notin> named_keys ps) p" by simp
  from kv n have "k \<in> named_keys ps" by (force simp: named_keys_def)
  then have "k \<notin> fst ` set p'" by (auto simp: p')
  then have "map_of (dict_update r' p') k = map_of r' k" by (rule dict_update_keep)
  with rest r' have "map_of rargs k = Some (converted (cls v) x ctx)"
    by (auto simp: bind_rest_def split: if_splits)
  moreover from bind_params_succeeds_iff [OF d, of ctx p "[]" False] st kv
  have "binds p (k, v)" by (auto simp: list_all_iff)
  with n x have "acceptable (cls v) x" by (simp add: binds_def)
  ultimately show ?thesis by simp
qed

section \<open>Properties of \<^verbatim>\<open>run\<close>\<close>

text \<open>
  Claim C3: for a signature with the required named parameters \<open>a\<close> and \<open>b\<close> and no
  keyword-capturing parameter, calling \<^verbatim>\<open>run\<close> with only \<open>a\<close> bound (by keyword or by
  position) raises the required-parameter error naming \<open>b\<close> before the function is
  invoked; calling it with \<open>a\<close>, \<open>b\<close> and an extra \<open>c\<close> raises, when
  \<^verbatim>\<open>ignore_unknown\<close> is false, the error naming \<open>c\<close>, again before the function is
  invoked; with \<^verbatim>\<open>ignore_unknown\<close> true the binding succeeds, \<open>c\<close> is discarded and the
  function receives \<open>a\<close> and \<open>b\<close> only, so that the call is the call without \<open>c\<close>.
\<close>

theorem required_and_unknown_parameters:
  assumes ab: "a \<noteq> b" and ca: "c \<noteq> a" and cb: "c \<noteq> b"
    and ps: "params w = [(a, pa), (b, pb)]"
    and na: "is_named (cls pa)" and nb: "is_named (cls pb)"
    and ra: "required pa" and rb: "required pb"
    and va: "acceptable (cls pa) va" and vb: "acceptable (cls pb) vb"
  shows
   "run rtm w [] [(a, va)] iu os out ctx = ([], Inl (Exn ValueError (RequiredNotGiven b))) \<and>
    run rtm w [va] [] iu os out ctx = ([], Inl (Exn ValueError (RequiredNotGiven b))) \<and>
    run rtm w [] [(a, va), (b, vb), (c, vc)] False os out ctx =
      ([], Inl (Exn ValueError (NotAcceptable [(c, vc)]))) \<and>
    bind_args (params w) [] [(a, va), (b, vb), (c, vc)] True ctx =
      Inr [(a, converted (cls pa) va ctx), (b, converted (cls pb) vb ctx)] \<and>
    run rtm w [] [(a, va), (b, vb), (c, vc)] True os out ctx =
      run rtm w [] [(a, va), (b, vb)] True os out ctx \<and>
    (\<forall>r. func w [(a, converted (cls pa) va ctx), (b, converted (cls pb) vb ctx)] = Inr r \<and>
         cls (rt w) = OtherParam \<longrightarrow>
       run rtm w [] [(a, va), (b, vb), (c, vc)] True os True ctx =
         ([Invoke [(a, converted (cls pa) va ctx), (b, converted (cls pb) vb ctx)]], Inr r))"
proof -
  have one_a: "bind_one a pa ctx (p, r, kw) =
      Inr (AList.delete a p, AList.update a (converted (cls pa) va ctx) r, kw)"
    if "map_of p a = Some va" for p r kw
    using that na va
    by (cases "cls pa"; cases va)
      (auto simp: bind_one_def is_named_def acceptable_def converted_def is_DataFrame_def)
  have one_b: "bind_one b pb ctx (p, r, kw) =
      Inr (AList.delete b p, AList.update b (converted (cls pb) vb ctx) r, kw)"
    if "map_of p b = Some vb" for p r kw
    using that nb vb
    by (cases "cls pb"; cases vb)
      (auto simp: bind_one_def is_named_def acceptable_def converted_def is_DataFrame_def)
  have miss_b: "bind_one b pb ctx (p, r, kw) = Inl (Exn ValueError (RequiredNotGiven b))"
    if "map_of p b = None" for p r kw
    using that nb rb by (cases "cls pb") (auto simp: bind_one_def is_named_def)
  have m1: "merge_args (params w) [] [(a, va)] = Inr [(a, va)]"
    by (simp add: merge_args_def dict_update_def)
  have m1': "merge_args (params w) [va] [] = Inr [(a, va)]"
    by (simp add: merge_args_def dict_update_def ps get_key_by_index_def)
  have m2: "merge_args (params w) [] [(a, va), (b, vb)] = Inr [(a, va), (b, vb)]"
    using ab by (simp add: merge_args_def dict_update_def)
  have m3: "merge_args (params w) [] [(a, va), (b, vb), (c, vc)] =
      Inr [(a, va), (b, vb), (c, vc)]"
    using ab ca cb by (simp add: merge_args_def dict_update_def)
  have b1: "bind_params (params w) ctx ([(a, va)], [], False) =
      Inl (Exn ValueError (RequiredNotGiven b))"
    using ab by (simp add: ps one_a miss_b)
  have b2: "bind_params (params w) ctx ([(a, va), (b, vb)], [], False) =
      Inr ([], [(a, converted (cls pa) va ctx), (b, converted (cls pb) vb ctx)], False)"
    using ab by (simp add: ps one_a one_b)
  have b3: "bind_params (params w) ctx ([(a, va), (b, vb), (c, vc)], [], False) =
      Inr ([(c, vc)], [(a, converted (cls pa) va ctx), (b, converted (cls pb) vb ctx)], False)"
    using ab ca cb by (simp add: ps one_a one_b)
  show ?thesis
    by (simp add: run_def bind_args_def m1 m1' m2 m3 b1 b2 b3 bind_rest_def finish_def)
qed

theorem required_and_unknown_parameters_witness:
  "run example_runtime wrapper_ab [] [(''a'', PyInt 1)] False None True PyNone =
     ([], Inl (Exn ValueError (RequiredNotGiven ''b''))) \<and>
   run example_runtime wrapper_ab [] [(''a'', PyInt 1), (''b'', PyInt 2), (''c'', PyInt 3)] False None True PyNone =
     ([], Inl (Exn ValueError (NotAcceptable [(''c'', PyInt 3)]))) \<and>
   run example_runtime wrapper_ab [] [(''a'', PyInt 1), (''b'', PyInt 2), (''c'', PyInt 3)] True None True PyNone =
     ([Invoke [(''a'', PyInt 1), (''b'', PyInt 2)]], Inr (PyInt 5))"
proof -
  have ps: "params wrapper_ab = [(''a'', required_named), (''b'', required_named)]"
    by (simp add: wrapper_ab_def)
  have n: "is_named (cls required_named)" "required required_named"
    "acceptable (cls required_named) (PyInt 1)" "acceptable (cls required_named) (PyInt 2)"
    by (simp_all add: required_named_def is_named_def acceptable_def)
  have conv: "converted (cls required_named) x PyNone = x" for x
    by (simp add: required_named_def converted_def)
  have f: "func wrapper_ab [(''a'', PyInt 1), (''b'', PyInt 2)] = Inr (PyInt 5)"
    "cls (rt wrapper_ab) = OtherParam"
    by (simp_all add: wrapper_ab_def returns_five_def)
  have ne: "''a'' \<noteq> ''b''" "''c'' \<noteq> ''a''" "''c'' \<noteq> ''b''"
    by simp_all
  note th = required_and_unknown_parameters
    [of "''a''" "''b''" "''c''" wrapper_ab required_named required_named "PyInt 1" "PyInt 2"
        example_runtime False None True PyNone "PyInt 3", OF ne ps n(1) n(1) n(2) n(2) n(3) n(4),
        unfolded conv]
  from th f show ?thesis by blast
qed

text \<open>
  Claim C4 says that the three binding failures of \<^verbatim>\<open>run\<close> have three pairwise
  different error types. In the code two of them are \<^verbatim>\<open>ValueError\<close>. As amended:
  the three binding failures (a required named parameter with no call value, a call
  value of a tabular parameter that is not a dataset handle, an extra parameter left over
  when \<^verbatim>\<open>ignore_unknown\<close> is false and nothing captures keywords) are each returned to
  the caller as the outcome of the call, with the function never invoked and nothing
  retried: the first parameter in declared order that does not bind decides between
  \<^verbatim>\<open>ValueError\<close> (required and not given) and \<^verbatim>\<open>TypeError\<close> (not a dataset handle),
  and left-over arguments raise \<^verbatim>\<open>ValueError\<close> (not acceptable) when every parameter
  binds. The missing parameter and the extra parameter share the type \<^verbatim>\<open>ValueError\<close>
  and differ in their messages.
\<close>

theorem binding_failures_surfaced:
  assumes m: "merge_args (params w) args kwargs = Inr p"
    and d: "distinct (map fst (params w))"
  shows
   "(\<forall>i k v. i < length (params w) \<and> params w ! i = (k, v) \<and>
        list_all (binds p) (take i (params w)) \<and> is_named (cls v) \<and> required v \<and>
        map_of p k = None \<longrightarrow>
      run rtm w args kwargs iu os out ctx = ([], Inl (Exn ValueError (RequiredNotGiven k)))) \<and>
    (\<forall>i k v h x. i < length (params w) \<and> params w ! i = (k, v) \<and>
        list_all (binds p) (take i (params w)) \<and> cls v = Tabular h \<and>
        map_of p k = Some x \<and> \<not> is_DataFrame x \<longrightarrow>
      run rtm w args kwargs iu os out ctx = ([], Inl (Exn TypeError (NotADataFrame x)))) \<and>
    (list_all (binds p) (params w) \<and> \<not> has_keyword_param (params w) \<and> \<not> iu \<and>
        filter (\<lambda>e. fst e \<notin> named_keys (params w)) p \<noteq> [] \<longrightarrow>
      run rtm w args kwargs iu os out ctx =
        ([], Inl (Exn ValueError
           (NotAcceptable (filter (\<lambda>e. fst e \<notin> named_keys (params w)) p)))))"
proof (intro conjI allI impI)
  fix i k v
  assume a: "i < length (params w) \<and> params w ! i = (k, v) \<and>
        list_all (binds p) (take i (params w)) \<and> is_named (cls v) \<and> required v \<and>
        map_of p k = None"
  then have "\<not> binds p (k, v)" by (simp add: binds_def)
  with a have "bind_params (params w) ctx (p, [], False) =
      Inl (Exn ValueError (RequiredNotGiven k))"
    using bind_params_first_failure [OF d, of i k v p ctx "[]" False] by simp
  then show "run rtm w args kwargs iu os out ctx = ([], Inl (Exn ValueError (RequiredNotGiven k)))"
    by (simp add: run_def bind_args_def m)
next
  fix i k v h x
  assume a: "i < length (params w) \<and> params w ! i = (k, v) \<and>
        list_all (binds p) (take i (params w)) \<and> cls v = Tabular h \<and>
        map_of p k = Some x \<and> \<not> is_DataFrame x"
  then have "\<not> binds p (k, v)" by (simp add: binds_def is_named_def acceptable_def)
  with a have "bind_params (params w) ctx (p, [], False) =
      Inl (Exn TypeError (NotADataFrame x))"
    using bind_params_first_failure [OF d, of i k v p ctx "[]" False] by simp
  then show "run rtm w args kwargs iu os out ctx = ([], Inl (Exn TypeError (NotADataFrame x)))"
    by (simp add: run_def bind_args_def m)
next
  let ?rest = "filter (\<lambda>e. fst e \<notin> named_keys (params w)) p"
  assume a: "list_all (binds p) (params w) \<and> \<not> has_keyword_param (params w) \<and> \<not> iu \<and>
        ?rest \<noteq> []"
  with bind_params_succeeds_iff [OF d, of ctx p "[]" False]
  obtain st where st: "bind_params (params w) ctx (p, [], False) = Inr st" by auto
  obtain p' r' kw' where st1: "st = (p', r', kw')" by (cases st)
  from bind_params_Inr [OF st [unfolded st1]] a have "p' = ?rest" "\<not> kw'" by auto
  with a show "run rtm w args kwargs iu os out ctx = ([], Inl (Exn ValueError (NotAcceptable ?rest)))"
    by (simp add: run_def bind_args_def m st st1 bind_rest_def)
qed

theorem binding_failures_surfaced_witness:
  "run example_runtime wrapper_pandas [] [(''df'', PyInt 1)] False None True PyNone =
     ([], Inl (Exn ValueError (RequiredNotGiven ''n''))) \<and>
   run example_runtime wrapper_pandas [PyInt 1, PyInt 2] [] False None True PyNone =
     ([], Inl (Exn TypeError (NotADataFrame (PyInt 2)))) \<and>
   run example_runtime wrapper_pandas [PyInt 1, PyDataFrame frame_ab] [(''z'', PyInt 3)] False None True PyNone =
     ([], Inl (Exn ValueError (NotAcceptable [(''z'', PyInt 3)])))"
proof -
  have d: "distinct (map fst (params wrapper_pandas))"
    by (simp add: wrapper_pandas_def)
  have m1: "merge_args (params wrapper_pandas) [] [(''df'', PyInt 1)] = Inr [(''df'', PyInt 1)]"
    by (simp add: merge_args_def dict_update_def)
  have m2: "merge_args (params wrapper_pandas) [PyInt 1, PyInt 2] [] =
      Inr [(''n'', PyInt 1), (''df'', PyInt 2)]"
    by (simp add: merge_args_def dict_update_def wrapper_pandas_def get_key_by_index_def)
  have m3: "merge_args (params wrapper_pandas) [PyInt 1, PyDataFrame frame_ab] [(''z'', PyInt 3)] =
      Inr [(''n'', PyInt 1), (''df'', PyDataFrame frame_ab), (''z'', PyInt 3)]"
    by (simp add: merge_args_def dict_update_def wrapper_pandas_def get_key_by_index_def)
  have nk: "named_keys (params wrapper_pandas) = {''n'', ''df''}"
    by (simp add: named_keys_def wrapper_pandas_def required_named_def is_named_def)
  from binding_failures_surfaced [OF m1 d, of example_runtime False None True PyNone]
  have "run example_runtime wrapper_pandas [] [(''df'', PyInt 1)] False None True PyNone =
     ([], Inl (Exn ValueError (RequiredNotGiven ''n'')))"
    by (auto simp: wrapper_pandas_def required_named_def is_named_def
        dest!: spec [of _ 0])
  moreover from binding_failures_surfaced [OF m2 d, of example_runtime False None True PyNone]
  have "run example_runtime wrapper_pandas [PyInt 1, PyInt 2] [] False None True PyNone =
     ([], Inl (Exn TypeError (NotADataFrame (PyInt 2))))"
    by (auto simp: wrapper_pandas_def required_named_def is_named_def binds_def acceptable_def
        is_DataFrame_def dest!: spec [of _ 1])
  moreover from binding_failures_surfaced [OF m3 d, of example_runtime False None True PyNone]
  have "run example_runtime wrapper_pandas [PyInt 1, PyDataFrame frame_ab] [(''z'', PyInt 3)] False None True PyNone =
     ([], Inl (Exn ValueError (NotAcceptable [(''z'', PyInt 3)])))"
    by (simp add: nk)
      (simp add: wrapper_pandas_def required_named_def is_named_def binds_def acceptable_def
        is_DataFrame_def has_keyword_param_def)
  ultimately show ?thesis by simp
qed

text \<open>
  The claim as first stated fails on the signature with two required parameters: the
  missing \<open>b\<close> and the extra \<open>c\<close> raise errors of one class.
\<close>

theorem binding_errors_share_class:
  "run example_runtime wrapper_ab [] [(''a'', PyInt 1)] False None True PyNone =
     ([], Inl (Exn ValueError (RequiredNotGiven ''b''))) \<and>
   run example_runtime wrapper_ab [] [(''a'', PyInt 1), (''b'', PyInt 2), (''c'', PyInt 3)] False None True PyNone =
     ([], Inl (Exn ValueError (NotAcceptable [(''c'', PyInt 3)]))) \<and>
   exn_class_of (Exn ValueError (RequiredNotGiven ''b'')) =
     exn_class_of (Exn ValueError (NotAcceptable [(''c'', PyInt 3)]))"
  by (simp add: run_def bind_args_def merge_args_def dict_update_def wrapper_ab_def
      required_named_def bind_one_def bind_rest_def)

text \<open>
  Claim C5 says that a call value of a tabular parameter that is not a dataset handle
  makes \<^verbatim>\<open>run\<close> fail with \<^verbatim>\<open>TypeError\<close>. The parameters are bound in declared order
  and the first failure is the one raised, so an earlier parameter can fail first. As
  amended: for every declared named parameter of \<^verbatim>\<open>run\<close> that resolved to a tabular
  handler, if the matching call value is not a dataset handle \<^verbatim>\<open>run\<close> fails before the
  function is invoked, and it fails with \<^verbatim>\<open>TypeError\<close> for this value when every
  parameter declared before it binds; if \<^verbatim>\<open>run\<close> invokes the function, the value passed
  for a tabular parameter is the handler's \<^verbatim>\<open>to_input_data\<close> conversion of the handle
  given, and the value passed for any other named parameter is the raw call value.
\<close>

theorem tabular_values_converted:
  assumes d: "distinct (map fst (params w))"
    and m: "merge_args (params w) args kwargs = Inr p"
    and i: "i < length (params w)" and kv: "params w ! i = (k, v)"
    and x: "map_of p k = Some x"
  shows
   "(\<forall>h. cls v = Tabular h \<and> \<not> is_DataFrame x \<longrightarrow>
       (\<exists>e. run rtm w args kwargs iu os out ctx = ([], Inl e)) \<and>
       (list_all (binds p) (take i (params w)) \<longrightarrow>
          run rtm w args kwargs iu os out ctx = ([], Inl (Exn TypeError (NotADataFrame x))))) \<and>
    (\<forall>rargs. bind_args (params w) args kwargs iu ctx = Inr rargs \<longrightarrow>
       (\<forall>h. cls v = Tabular h \<longrightarrow>
          (\<exists>df. x = PyDataFrame df \<and> map_of rargs k = Some (to_input_data h df ctx))) \<and>
       (cls v = OtherParam \<longrightarrow> map_of rargs k = Some x) \<and>
       (\<exists>evs res. run rtm w args kwargs iu os out ctx = (Invoke rargs # evs, res)))"
proof (intro conjI allI impI)
  fix h
  assume a: "cls v = Tabular h \<and> \<not> is_DataFrame x"
  then have bad: "\<not> binds p (k, v)"
    using x by (simp add: binds_def is_named_def acceptable_def)
  from i kv have mem: "(k, v) \<in> set (params w)"
    by (metis nth_mem)
  have "\<not> list_all (binds p) (params w)"
    using bad mem by (auto simp: list_all_iff)
  with bind_params_succeeds_iff [OF d, of ctx p "[]" False]
  obtain e where "bind_params (params w) ctx (p, [], False) = Inl e"
    by (cases "bind_params (params w) ctx (p, [], False)") auto
  then show "\<exists>e. run rtm w args kwargs iu os out ctx = ([], Inl e)"
    by (simp add: run_def bind_args_def m)
  show "run rtm w args kwargs iu os out ctx = ([], Inl (Exn TypeError (NotADataFrame x)))"
    if "list_all (binds p) (take i (params w))"
    using bind_params_first_failure [OF d i kv that bad, of ctx "[]" False] x
    by (simp add: run_def bind_args_def m)
next
  fix rargs h
  assume b: "bind_args (params w) args kwargs iu ctx = Inr rargs" and t: "cls v = Tabular h"
  from i kv have mem: "(k, v) \<in> set (params w)"
    by (metis nth_mem)
  from bind_args_rargs [OF b m d mem _ x] t
  have "map_of rargs k = Some (converted (cls v) x ctx)" "acceptable (cls v) x"
    by (simp_all add: is_named_def)
  with t show "\<exists>df. x = PyDataFrame df \<and> map_of rargs k = Some (to_input_data h df ctx)"
    by (cases x) (simp_all add: acceptable_def is_DataFrame_def converted_def)
next
  fix rargs
  assume b: "bind_args (params w) args kwargs iu ctx = Inr rargs" and t: "cls v = OtherParam"
  from i kv have mem: "(k, v) \<in> set (params w)"
    by (metis nth_mem)
  from bind_args_rargs [OF b m d mem _ x] t
  show "map_of rargs k = Some x"
    by (simp add: is_named_def converted_def)
next
  fix rargs
  assume b: "bind_args (params w) args kwargs iu ctx = Inr rargs"
  show "\<exists>evs res. run rtm w args kwargs iu os out ctx = (Invoke rargs # evs, res)"
    by (cases "func w rargs") (auto simp: run_def b split: prod.splits)
qed

theorem tabular_values_converted_witness:
  "run example_runtime wrapper_pandas [PyInt 1, PyInt 2] [] False None True PyNone =
     ([], Inl (Exn TypeError (NotADataFrame (PyInt 2)))) \<and>
   bind_args (params wrapper_pandas) [PyInt 1, PyDataFrame frame_ab] [] False PyNone =
     Inr [(''n'', PyInt 1), (''df'', PyPandas (PdFrame [(''x'', ''int'')] [[CInt 1], [CInt 2]]))] \<and>
   to_input_data PandasParam frame_ab PyNone =
     PyPandas (PdFrame [(''x'', ''int'')] [[CInt 1], [CInt 2]])"
proof -
  have d: "distinct (map fst (params wrapper_pandas))"
    by (simp add: wrapper_pandas_def)
  have m2: "merge_args (params wrapper_pandas) [PyInt 1, PyInt 2] [] =
      Inr [(''n'', PyInt 1), (''df'', PyInt 2)]"
    by (simp add: merge_args_def dict_update_def wrapper_pandas_def get_key_by_index_def)
  have kv: "params wrapper_pandas ! 1 = (''df'', \<lparr>cls = Tabular PandasParam, required = True\<rparr>)"
    by (simp add: wrapper_pandas_def)
  have i: "1 < length (params wrapper_pandas)"
    by (simp add: wrapper_pandas_def)
  have pre: "list_all (binds [(''n'', PyInt 1), (''df'', PyInt 2)]) (take 1 (params wrapper_pandas))"
    by (simp add: wrapper_pandas_def required_named_def binds_def acceptable_def)
  from tabular_values_converted [OF d m2 i kv, of "PyInt 2" example_runtime False None True PyNone] pre
  have "run example_runtime wrapper_pandas [PyInt 1, PyInt 2] [] False None True PyNone =
     ([], Inl (Exn TypeError (NotADataFrame (PyInt 2))))"
    by (simp add: is_DataFrame_def)
  moreover
  have "bind_args (params wrapper_pandas) [PyInt 1, PyDataFrame frame_ab] [] False PyNone =
     Inr [(''n'', PyInt 1), (''df'', PyPandas (PdFrame [(''x'', ''int'')] [[CInt 1], [CInt 2]]))]"
    by (simp add: bind_args_def merge_args_def dict_update_def wrapper_pandas_def
        get_key_by_index_def required_named_def bind_one_def bind_rest_def as_pandas_def
        frame_ab_def)
  moreover have "to_input_data PandasParam frame_ab PyNone =
     PyPandas (PdFrame [(''x'', ''int'')] [[CInt 1], [CInt 2]])"
    by (simp add: as_pandas_def frame_ab_def)
  ultimately show ?thesis by simp
qed

text \<open>
  The claim as first stated fails on a signature with a required plain parameter declared
  before a pandas parameter: called with a number for the pandas parameter only,
  \<^verbatim>\<open>run\<close> raises the \<^verbatim>\<open>ValueError\<close> of the missing parameter.
\<close>

theorem earlier_failure_wins:
  "params wrapper_pandas ! 1 = (''df'', \<lparr>cls = Tabular PandasParam, required = True\<rparr>) \<and>
   \<not> is_DataFrame (PyInt 1) \<and>
   run example_runtime wrapper_pandas [] [(''df'', PyInt 1)] False None True PyNone =
     ([], Inl (Exn ValueError (RequiredNotGiven ''n''))) \<and>
   exn_class_of (Exn ValueError (RequiredNotGiven ''n'')) \<noteq> TypeError"
  by (simp add: run_def bind_args_def merge_args_def dict_update_def wrapper_pandas_def
      required_named_def bind_one_def is_DataFrame_def)

text \<open>
  Claim C9: in the argument merge of \<^verbatim>\<open>run\<close> the positional arguments are bound to the
  parameter slots by declared index first; where a keyword argument has the name of a
  parameter already bound by position, the keyword argument's value is the one that is
  used for it, in the pool and in the call of the function.
\<close>

theorem keyword_overrides_positional:
  assumes d: "distinct (map fst ps)" and dk: "distinct (map fst kwargs)"
    and i: "i < length args" and m: "merge_args ps args kwargs = Inr p"
  shows
   "i < length ps \<and>
    map_of p (fst (ps ! i)) =
      Some (case map_of kwargs (fst (ps ! i)) of Some x \<Rightarrow> x | None \<Rightarrow> args ! i) \<and>
    (\<forall>rargs. bind_args ps args kwargs iu ctx = Inr rargs \<and> is_named (cls (snd (ps ! i))) \<longrightarrow>
       map_of rargs (fst (ps ! i)) =
         Some (converted (cls (snd (ps ! i)))
           (case map_of kwargs (fst (ps ! i)) of Some x \<Rightarrow> x | None \<Rightarrow> args ! i) ctx))"
proof -
  from merge_args_lookup [OF m d dk, of "fst (ps ! i)"] have
    len: "length args \<le> length ps" and
    look: "map_of p (fst (ps ! i)) =
     (case map_of kwargs (fst (ps ! i)) of
        Some x \<Rightarrow> Some x
      | None \<Rightarrow> map_of (zip (map fst (take (length args) ps)) args) (fst (ps ! i)))"
    by auto
  from len i have ips: "i < length ps" by simp
  have dt: "distinct (map fst (take (length args) ps))"
    using d by (simp add: distinct_take take_map [symmetric])
  have "map_of (zip (map fst (take (length args) ps)) args)
      (map fst (take (length args) ps) ! i) = Some (args ! i)"
    using len i dt by (intro map_of_zip_nth) auto
  with len i have "map_of (zip (map fst (take (length args) ps)) args) (fst (ps ! i)) =
      Some (args ! i)"
    by simp
  with look have p: "map_of p (fst (ps ! i)) =
      Some (case map_of kwargs (fst (ps ! i)) of Some x \<Rightarrow> x | None \<Rightarrow> args ! i)"
    by (simp split: option.splits)
  have "(fst (ps ! i), snd (ps ! i)) \<in> set ps"
    using ips by simp
  with p ips show ?thesis
    using bind_args_rargs [OF _ m d, of iu ctx _ "fst (ps ! i)" "snd (ps ! i)"]
    by blast
qed

theorem keyword_overrides_positional_witness:
  "merge_args (params wrapper_ab) [PyInt 7, PyInt 8] [(''a'', PyInt 1)] =
     Inr [(''a'', PyInt 1), (''b'', PyInt 8)] \<and>
   bind_args (params wrapper_ab) [PyInt 7, PyInt 8] [(''a'', PyInt 1)] False PyNone =
     Inr [(''a'', PyInt 1), (''b'', PyInt 8)] \<and>
   map_of [(''a'', PyInt 1), (''b'', PyInt 8)] (fst (params wrapper_ab ! 0)) = Some (PyInt 1) \<and>
   map_of [(''a'', PyInt 1), (''b'', PyInt 8)] (fst (params wrapper_ab ! 1)) = Some (PyInt 8)"
proof -
  have d: "distinct (map fst (params wrapper_ab))"
    by (simp add: wrapper_ab_def)
  have dk: "distinct (map fst [(''a'', PyInt 1)])" by simp
  have m: "merge_args (params wrapper_ab) [PyInt 7, PyInt 8] [(''a'', PyInt 1)] =
     Inr [(''a'', PyInt 1), (''b'', PyInt 8)]"
    by (simp add: merge_args_def dict_update_def wrapper_ab_def get_key_by_index_def)
  have b: "bind_args (params wrapper_ab) [PyInt 7, PyInt 8] [(''a'', PyInt 1)] False PyNone =
     Inr [(''a'', PyInt 1), (''b'', PyInt 8)]"
    by (simp add: bind_args_def m)
      (simp add: wrapper_ab_def required_named_def bind_one_def bind_rest_def)
  have "map_of [(''a'', PyInt 1), (''b'', PyInt 8)] (fst (params wrapper_ab ! 0)) = Some (PyInt 1)"
    using keyword_overrides_positional [OF d dk _ m, of 0 False PyNone]
    by (simp add: wrapper_ab_def)
  moreover
  have "map_of [(''a'', PyInt 1), (''b'', PyInt 8)] (fst (params wrapper_ab ! 1)) = Some (PyInt 8)"
    using keyword_overrides_positional [OF d dk _ m, of 1 False PyNone]
    by (simp add: wrapper_ab_def)
  ultimately show ?thesis using m b by simp
qed

text \<open>
  Claim C1 says that with \<^verbatim>\<open>output\<close> false \<^verbatim>\<open>run\<close> returns the raw return value when
  the return annotation is not a tabular handler. The code returns nothing in that case
  too. As amended: for every call of \<^verbatim>\<open>run\<close> with \<^verbatim>\<open>output\<close> false whose binding
  succeeds and whose function returns a value, if the return annotation resolved to a
  tabular handler the value is only row-counted by the handler's \<^verbatim>\<open>count\<close>, whatever
  the value is, and then \<^verbatim>\<open>run\<close> returns nothing when the count returns and raises
  the count's exception when it raises; if the return annotation is not a tabular
  handler \<^verbatim>\<open>run\<close> returns nothing as well, without counting. The raw return value is
  returned unconverted when \<^verbatim>\<open>output\<close> is true and the return annotation is not a
  tabular handler.
\<close>

theorem run_without_output:
  assumes b: "bind_args (params w) args kwargs iu ctx = Inr rargs"
    and f: "func w rargs = Inr v"
  shows
   "(\<forall>h n. cls (rt w) = Tabular h \<and> count rtm h v = Inr n \<longrightarrow>
       run rtm w args kwargs iu os False ctx = ([Invoke rargs, Count h v], Inr PyNone)) \<and>
    (\<forall>h e. cls (rt w) = Tabular h \<and> count rtm h v = Inl e \<longrightarrow>
       run rtm w args kwargs iu os False ctx = ([Invoke rargs, Count h v], Inl e)) \<and>
    ((\<forall>h. cls (rt w) \<noteq> Tabular h) \<longrightarrow>
       run rtm w args kwargs iu os False ctx = ([Invoke rargs], Inr PyNone) \<and>
       run rtm w args kwargs iu os True ctx = ([Invoke rargs], Inr v))"
  by (cases "cls (rt w)") (simp_all add: run_def b f finish_def)

theorem run_without_output_witness:
  "run example_runtime wrapper_frame [PyInt 1] [] False None False PyNone =
     ([Invoke [(''a'', PyInt 1)], Count DataFrameParam (PyDataFrame frame_ab)], Inr PyNone) \<and>
   count example_runtime DataFrameParam (PyDataFrame frame_ab) = Inr (PyInt 2) \<and>
   run example_runtime wrapper_rows [] [] False None False PyNone =
     ([Invoke [], Count ListListParam (PyListDict [[(''x'', CInt 1)]])], Inr PyNone) \<and>
   count example_runtime ListListParam (PyListDict [[(''x'', CInt 1)]]) = Inr (PyInt 1) \<and>
   run example_runtime wrapper_ab [PyInt 1, PyInt 2] [] False None False PyNone =
     ([Invoke [(''a'', PyInt 1), (''b'', PyInt 2)]], Inr PyNone) \<and>
   run example_runtime wrapper_ab [PyInt 1, PyInt 2] [] False None True PyNone =
     ([Invoke [(''a'', PyInt 1), (''b'', PyInt 2)]], Inr (PyInt 5))"
proof -
  have b1: "bind_args (params wrapper_frame) [PyInt 1] [] False PyNone = Inr [(''a'', PyInt 1)]"
    by (simp add: bind_args_def merge_args_def dict_update_def wrapper_frame_def
        required_named_def get_key_by_index_def bind_one_def bind_rest_def)
  have f1: "func wrapper_frame [(''a'', PyInt 1)] = Inr (PyDataFrame frame_ab)"
    by (simp add: wrapper_frame_def returns_frame_def)
  have c1: "count example_runtime DataFrameParam (PyDataFrame frame_ab) = Inr (PyInt 2)"
    by (simp add: DataFrameParam_count_def frame_ab_def df_count_def counted_def)
  have r1: "cls (rt wrapper_frame) = Tabular DataFrameParam"
    by (simp add: wrapper_frame_def)
  have b2: "bind_args (params wrapper_ab) [PyInt 1, PyInt 2] [] False PyNone =
      Inr [(''a'', PyInt 1), (''b'', PyInt 2)]"
    by (simp add: bind_args_def merge_args_def dict_update_def wrapper_ab_def
        required_named_def get_key_by_index_def bind_one_def bind_rest_def)
  have f2: "func wrapper_ab [(''a'', PyInt 1), (''b'', PyInt 2)] = Inr (PyInt 5)"
    by (simp add: wrapper_ab_def returns_five_def)
  have r2: "\<forall>h. cls (rt wrapper_ab) \<noteq> Tabular h"
    by (simp add: wrapper_ab_def)
  have b3: "bind_args (params wrapper_rows) [] [] False PyNone = Inr []"
    by (simp add: bind_args_def merge_args_def dict_update_def wrapper_rows_def bind_rest_def)
  have f3: "func wrapper_rows [] = Inr (PyListDict [[(''x'', CInt 1)]])"
    by (simp add: wrapper_rows_def returns_dicts_def)
  have c3: "count example_runtime ListListParam (PyListDict [[(''x'', CInt 1)]]) = Inr (PyInt 1)"
    by (simp add: example_runtime_def)
  have r3: "cls (rt wrapper_rows) = Tabular ListListParam"
    by (simp add: wrapper_rows_def)
  from run_without_output [OF b1 f1, of example_runtime None] r1 c1
  have "run example_runtime wrapper_frame [PyInt 1] [] False None False PyNone =
     ([Invoke [(''a'', PyInt 1)], Count DataFrameParam (PyDataFrame frame_ab)], Inr PyNone)"
    by blast
  moreover from run_without_output [OF b3 f3, of example_runtime None] r3 c3
  have "run example_runtime wrapper_rows [] [] False None False PyNone =
     ([Invoke [], Count ListListParam (PyListDict [[(''x'', CInt 1)]])], Inr PyNone)"
    by blast
  moreover from run_without_output [OF b2 f2, of example_runtime None] r2
  have "run example_runtime wrapper_ab [PyInt 1, PyInt 2] [] False None False PyNone =
     ([Invoke [(''a'', PyInt 1), (''b'', PyInt 2)]], Inr PyNone) \<and>
   run example_runtime wrapper_ab [PyInt 1, PyInt 2] [] False None True PyNone =
     ([Invoke [(''a'', PyInt 1), (''b'', PyInt 2)]], Inr (PyInt 5))"
    by blast
  ultimately show ?thesis using c1 c3 by simp
qed

text \<open>
  The claim as first stated fails on a function with a plain return annotation that
  returns 5: with \<^verbatim>\<open>output\<close> false \<^verbatim>\<open>run\<close> returns nothing, not 5.
\<close>

theorem run_without_output_raw_value:
  "cls (rt wrapper_ab) = OtherParam \<and>
   func wrapper_ab [(''a'', PyInt 1), (''b'', PyInt 2)] = Inr (PyInt 5) \<and>
   run example_runtime wrapper_ab [PyInt 1, PyInt 2] [] False None False PyNone =
     ([Invoke [(''a'', PyInt 1), (''b'', PyInt 2)]], Inr PyNone) \<and>
   snd (run example_runtime wrapper_ab [PyInt 1, PyInt 2] [] False None False PyNone) \<noteq> Inr (PyInt 5)"
  by (simp add: run_def bind_args_def merge_args_def dict_update_def wrapper_ab_def
      required_named_def get_key_by_index_def bind_one_def bind_rest_def returns_five_def
      finish_def)

section \<open>Inference of the execution context\<close>

lemma all_agree_iff: "all_agree xs \<longleftrightarrow> (\<forall>x\<in>set xs. \<forall>y\<in>set xs. x = y)"
proof (cases xs)
  case Nil
  then show ?thesis by (simp add: all_agree_def)
next
  case (Cons a list)
  have "list_all (\<lambda>y. y = a) list \<longleftrightarrow> (\<forall>x\<in>set (a # list). \<forall>y\<in>set (a # list). x = y)"
  proof
    assume "list_all (\<lambda>y. y = a) list"
    then have "\<forall>x\<in>set (a # list). x = a" by (simp add: list_all_iff)
    then show "\<forall>x\<in>set (a # list). \<forall>y\<in>set (a # list). x = y" by metis
  next
    assume "\<forall>x\<in>set (a # list). \<forall>y\<in>set (a # list). x = y"
    then show "list_all (\<lambda>y. y = a) list" by (simp add: list_all_iff)
  qed
  then show ?thesis by (simp add: all_agree_def Cons)
qed

lemma scan_result_Nil: "scan_result cur [] = Inr cur"
  by (cases cur) (simp_all add: scan_result_def all_agree_def)

lemma scan_result_Cons:
  "scan_result cur (x # xs) =
     (if cur = None \<or> cur = Some x then scan_result (Some x) xs
      else Inl (Exn ValueError DifferentParentWorkflows))"
  by (cases cur) (auto simp: scan_result_def all_agree_iff)

lemma scan_result_append:
  "scan_result cur (xs @ ys) =
     (case scan_result cur xs of Inl e \<Rightarrow> Inl e | Inr c \<Rightarrow> scan_result c ys)"
  by (induction xs arbitrary: cur) (simp_all add: scan_result_Nil scan_result_Cons)

lemma infer_items_scan:
  "list_all (\<lambda>kv. is_WorkflowDataFrame (snd kv)) items \<Longrightarrow>
   infer_items items cur = scan_result cur (entry_owners items)"
proof (induction items arbitrary: cur)
  case Nil
  then show ?case by (simp add: entry_owners_def scan_result_Nil)
next
  case (Cons kv items)
  obtain k v where kv: "kv = (k, v)" by (cases kv)
  from Cons.prems obtain x where v: "v = WorkflowDataFrame x"
    by (cases v) (auto simp: kv is_WorkflowDataFrame_def)
  have eo: "entry_owners ((k, WorkflowDataFrame x) # items) = x # entry_owners items"
    by (simp add: entry_owners_def)
  from Cons show ?case
    by (simp add: kv v eo scan_result_Cons)
qed

lemma infer_items_Inr:
  "infer_items items cur = Inr c \<Longrightarrow> list_all (\<lambda>kv. is_WorkflowDataFrame (snd kv)) items"
proof (induction items arbitrary: cur)
  case Nil
  then show ?case by simp
next
  case (Cons kv items)
  obtain k v where kv: "kv = (k, v)" by (cases kv)
  from Cons.prems show ?case
    by (cases v) (auto simp: kv is_WorkflowDataFrame_def split: if_splits dest: Cons.IH)
qed

lemma owners_of_simps:
  "owners_of (FugueWorkflow c) = []"
  "owners_of (WorkflowDataFrame x) = [x]"
  "owners_of (WorkflowDataFrames items) = entry_owners items"
  "owners_of OtherArg = []"
  by (simp_all add: owners_of_def)

lemma infer_loop_scan:
  "list_all well_formed as \<Longrightarrow>
   infer_loop as cur = scan_result cur (concat (map owners_of as))"
proof (induction as arbitrary: cur)
  case Nil
  then show ?case by (simp add: scan_result_Nil)
next
  case (Cons a as)
  then have ih: "infer_loop as c = scan_result c (concat (map owners_of as))" for c
    by simp
  show ?case
  proof (cases a)
    case (WorkflowDataFrame x)
    then show ?thesis by (simp add: owners_of_simps scan_result_Cons ih)
  next
    case (WorkflowDataFrames items)
    with Cons.prems have "list_all (\<lambda>kv. is_WorkflowDataFrame (snd kv)) items"
      by (simp add: well_formed_def)
    from infer_items_scan [OF this] WorkflowDataFrames show ?thesis
      by (simp add: owners_of_simps scan_result_append ih split: sum.splits)
  qed (simp_all add: owners_of_simps ih)
qed

lemma infer_loop_Inr: "infer_loop as cur = Inr c \<Longrightarrow> list_all well_formed as"
proof (induction as arbitrary: cur)
  case Nil
  then show ?case by simp
next
  case (Cons a as)
  then show ?case
    by (cases a) (auto simp: well_formed_def split: if_splits sum.splits dest: infer_items_Inr)
qed

lemma infer_items_Inl: "infer_items items cur = Inl e \<Longrightarrow> exn_class_of e = ValueError"
proof (induction items arbitrary: cur)
  case Nil
  then show ?case by simp
next
  case (Cons kv items)
  obtain k v where kv: "kv = (k, v)" by (cases kv)
  from Cons.prems show ?case
    by (cases v) (auto simp: kv split: if_splits dest: Cons.IH)
qed

lemma infer_loop_Inl: "infer_loop as cur = Inl e \<Longrightarrow> exn_class_of e = ValueError"
proof (induction as arbitrary: cur)
  case Nil
  then show ?case by simp
next
  case (Cons a as)
  then show ?case
    by (cases a) (auto split: if_splits sum.splits dest: infer_items_Inl)
qed

lemma infer_loop_filter:
  "infer_loop (filter is_handle_or_collection as) cur = infer_loop as cur"
  by (induction as arbitrary: cur)
    (auto simp: is_handle_or_collection_def split: marg.splits sum.splits)

lemma owners_filter:
  "concat (map owners_of (filter is_handle_or_collection as)) = concat (map owners_of as)"
  by (induction as) (auto simp: is_handle_or_collection_def owners_of_simps split: marg.splits)

lemma infer_loop_append:
  "infer_loop (as @ bs) cur =
     (case infer_loop as cur of Inl e \<Rightarrow> Inl e | Inr c \<Rightarrow> infer_loop bs c)"
  by (induction as arbitrary: cur) (auto split: marg.splits sum.splits)

lemma infer_workflow_eq:
  "infer_workflow args kwargs = infer_loop (args @ map snd kwargs) None"
  by (simp add: infer_workflow_def select_args_def infer_loop_append infer_loop_filter
      split: sum.splits)

lemma omits_context_need_add:
  "omits_context (module_params w) args kwargs \<Longrightarrow> need_add_workflow w args kwargs = Inr True"
  by (cases "module_params w"; cases args)
    (auto simp: omits_context_def need_add_workflow_def first_annotation_is_workflow_def
      get_value_by_index_def get_key_by_index_def)

text \<open>
  Claim C2: for a call through the workflow-aware wrapper whose first declared parameter
  is an execution context and that supplies none (not among the keyword arguments, not
  as first positional argument), the positional and then the keyword arguments are
  scanned for graph-bound handles; if two handles have different owning contexts the
  call fails with \<^verbatim>\<open>ValueError\<close>; if no context can be inferred it fails; otherwise the
  one inferred context is put before the positional arguments and the call is delegated.
  The collections met are those whose entries are all handles, as their class provides.
\<close>

theorem module_call_infers_context:
  assumes o: "omits_context (module_params w) args kwargs"
  shows
   "(\<not> all_agree (owners args kwargs) \<longrightarrow>
       (\<exists>m. module_call w args kwargs = Inl (Exn ValueError m))) \<and>
    (owners args kwargs = [] \<longrightarrow>
       (\<exists>m. module_call w args kwargs = Inl (Exn ValueError m))) \<and>
    (list_all well_formed (args @ map snd kwargs) \<longrightarrow>
       (\<not> all_agree (owners args kwargs) \<longrightarrow>
          module_call w args kwargs = Inl (Exn ValueError DifferentParentWorkflows)) \<and>
       (owners args kwargs = [] \<longrightarrow>
          module_call w args kwargs = Inl (Exn ValueError CantInferWorkflow)) \<and>
       (all_agree (owners args kwargs) \<and> owners args kwargs \<noteq> [] \<longrightarrow>
          module_call w args kwargs =
            super_call w (FugueWorkflow (hd (owners args kwargs)) # args) kwargs))"
proof -
  let ?as = "args @ map snd kwargs"
  let ?os = "owners args kwargs"
  have call: "module_call w args kwargs =
      (case infer_loop ?as None of
         Inl e \<Rightarrow> Inl e
       | Inr None \<Rightarrow> Inl (Exn ValueError CantInferWorkflow)
       | Inr (Some c) \<Rightarrow> super_call w (FugueWorkflow c # args) kwargs)"
    by (simp add: module_call_def omits_context_need_add [OF o] infer_workflow_eq)
  have wf: "infer_loop ?as None = scan_result None ?os" if "list_all well_formed ?as"
    using infer_loop_scan [OF that, of None] by (simp add: owners_def)
  have last_hd: "last ?os = hd ?os" if "all_agree ?os" "?os \<noteq> []"
    using that by (simp add: all_agree_iff)
  have general: "\<exists>m. module_call w args kwargs = Inl (Exn ValueError m)"
    if "\<not> all_agree ?os \<or> ?os = []"
  proof (cases "infer_loop ?as None")
    case (Inl e)
    from infer_loop_Inl [OF Inl] obtain m where "e = Exn ValueError m"
      by (cases e) simp
    with Inl show ?thesis by (simp add: call)
  next
    case (Inr c)
    from infer_loop_Inr [OF Inr] have "list_all well_formed ?as" .
    from wf [OF this] Inr that have "c = None"
      by (auto simp: scan_result_def all_agree_def split: if_splits)
    with Inr show ?thesis by (simp add: call)
  qed
  have exact: "(\<not> all_agree ?os \<longrightarrow>
          module_call w args kwargs = Inl (Exn ValueError DifferentParentWorkflows)) \<and>
       (?os = [] \<longrightarrow> module_call w args kwargs = Inl (Exn ValueError CantInferWorkflow)) \<and>
       (all_agree ?os \<and> ?os \<noteq> [] \<longrightarrow>
          module_call w args kwargs = super_call w (FugueWorkflow (hd ?os) # args) kwargs)"
    if "list_all well_formed ?as"
    using last_hd by (auto simp: call wf [OF that] scan_result_def all_agree_def)
  from general exact show ?thesis by blast
qed

theorem module_call_infers_context_witness:
  "omits_context (module_params module_wv) [WorkflowDataFrame 3] [] \<and>
   module_call module_wv [WorkflowDataFrame 3] [] =
     Inr [FugueWorkflow 3, WorkflowDataFrame 3] \<and>
   module_call module_wv [WorkflowDataFrame 3] [(''df'', WorkflowDataFrame 4)] =
     Inl (Exn ValueError DifferentParentWorkflows) \<and>
   module_call module_wv [OtherArg] [] = Inl (Exn ValueError CantInferWorkflow)"
proof -
  have o1: "omits_context (module_params module_wv) [WorkflowDataFrame 3] []"
    by (simp add: omits_context_def module_wv_def is_FugueWorkflow_def)
  have o2: "omits_context (module_params module_wv) [WorkflowDataFrame 3]
      [(''df'', WorkflowDataFrame 4)]"
    by (simp add: omits_context_def module_wv_def is_FugueWorkflow_def)
  have o3: "omits_context (module_params module_wv) [OtherArg] []"
    by (simp add: omits_context_def module_wv_def is_FugueWorkflow_def)
  from module_call_infers_context [OF o1]
  have "module_call module_wv [WorkflowDataFrame 3] [] =
     Inr [FugueWorkflow 3, WorkflowDataFrame 3]"
    by (simp add: owners_def owners_of_def well_formed_def all_agree_def module_wv_def
        echo_call_def)
  moreover from module_call_infers_context [OF o2]
  have "module_call module_wv [WorkflowDataFrame 3] [(''df'', WorkflowDataFrame 4)] =
     Inl (Exn ValueError DifferentParentWorkflows)"
    by (simp add: owners_def owners_of_def well_formed_def all_agree_def)
  moreover from module_call_infers_context [OF o3]
  have "module_call module_wv [OtherArg] [] = Inl (Exn ValueError CantInferWorkflow)"
    by (simp add: owners_def owners_of_def well_formed_def all_agree_def)
  ultimately show ?thesis using o1 by simp
qed

end
